theory Spec2Isabelle
  imports Main "HOL-Library.Word"
begin

section \<open>Launch preparation of a network chain (package networkchain)\<close>

text \<open>
  The development embeds \<^verbatim>\<open>networkchain.go\<close> (\<^verbatim>\<open>Chain.Build\<close>, \<^verbatim>\<open>fetchSource\<close>) and
  \<^verbatim>\<open>prepare.go\<close> (\<^verbatim>\<open>Chain.Prepare\<close>, \<^verbatim>\<open>buildGenesis\<close>, \<^verbatim>\<open>applyGenesisAccounts\<close>,
  \<^verbatim>\<open>applyVestingAccounts\<close>, \<^verbatim>\<open>applyGenesisValidators\<close>,
  \<^verbatim>\<open>updateConfigFromGenesisValidators\<close>).  Every Go function returning \<^verbatim>\<open>error\<close> becomes
  a function into a sum, \<open>Inl\<close> carrying the error; every call that leaves the package
  (the chain adapter, the chain CLI, the operating system, go-git, go-toml) is a field
  of an environment record, so that the theorems hold for every behaviour of these
  collaborators.
\<close>

subsection \<open>Errors\<close>

datatype error =
    ErrNotFound                \<comment> \<open>\<^verbatim>\<open>exec.ErrNotFound\<close>: executable file not found in PATH\<close>
  | ErrNotExist                \<comment> \<open>the error class recognised by \<^verbatim>\<open>os.IsNotExist\<close>\<close>
  | InvalidPeer string         \<comment> \<open>\<^verbatim>\<open>errors.Errorf("invalid peer: %s", val.Peer.Id)\<close>\<close>
  | InvalidPeerType            \<comment> \<open>\<^verbatim>\<open>fmt.Errorf("invalid peer type")\<close>\<close>
  | Wrap error string          \<comment> \<open>\<^verbatim>\<open>errors.Wrap(err, msg)\<close>\<close>
  | Failure string             \<comment> \<open>any other error of a collaborator\<close>

text \<open>\<^verbatim>\<open>errors.Is(err, exec.ErrNotFound)\<close> follows the chain of wrapped errors.\<close>

fun is_ErrNotFound :: "error \<Rightarrow> bool" where
  "is_ErrNotFound ErrNotFound = True"
| "is_ErrNotFound (Wrap e msg) = is_ErrNotFound e"
| "is_ErrNotFound _ = False"

text \<open>\<^verbatim>\<open>os.IsNotExist(err)\<close> inspects the error itself and does not unwrap.\<close>

definition os_IsNotExist :: "error \<Rightarrow> bool" where
  "os_IsNotExist e = (e = ErrNotExist)"

subsection \<open>Data\<close>

type_synonym path = string
type_synonym bytes = string

text \<open>
  \<^verbatim>\<open>launchtypes.Peer\<close>: a node id and a connection, which the type switch of
  \<^verbatim>\<open>updateConfigFromGenesisValidators\<close> separates into a TCP address, an HTTP tunnel
  (name and address) and anything else (the \<^verbatim>\<open>default\<close> branch, a nil connection
  included).
\<close>

datatype connection =
    Peer_TcpAddress string
  | Peer_HttpTunnel string string
  | Peer_Other

record peer =
  peer_Id :: string
  Connection :: connection

text \<open>\<^verbatim>\<open>networktypes.GenesisValidator\<close>, \<^verbatim>\<open>GenesisAccount\<close> and \<^verbatim>\<open>VestingAccount\<close>.\<close>

record GenesisValidator =
  Gentx :: bytes
  Peer :: peer

record GenesisAccount =
  acc_Address :: string
  Coins :: string

record VestingAccount =
  vest_Address :: string
  TotalBalance :: string
  Vesting :: string
  EndTime :: int

record GenesisInformation =
  GenesisAccounts :: "GenesisAccount list"
  VestingAccounts :: "VestingAccount list"
  GenesisValidators :: "GenesisValidator list"

text \<open>\<^verbatim>\<open>TunneledPeer\<close>, the entry of the tunnel configuration file.\<close>

record TunneledPeer =
  Name :: string
  Address :: string
  NodeID :: string
  LocalPort :: string

text \<open>A parsed TOML document: the keys that are set, with their values.\<close>

datatype toml_value = TomlBool bool | TomlString string

type_synonym toml_tree = "string \<rightharpoonup> toml_value"

text \<open>
  The fields of \<^verbatim>\<open>Chain\<close> that \<^verbatim>\<open>Build\<close> and \<^verbatim>\<open>Prepare\<close> read.  The handles
  \<^verbatim>\<open>chain\<close>, \<^verbatim>\<open>ev\<close> and \<^verbatim>\<open>ar\<close> are the collaborators of the environment below.
\<close>

record Chain =
  launchID :: "64 word"
  hash :: string
  launchTime :: int

subsection \<open>Formatting\<close>

text \<open>
  \<^verbatim>\<open>strconv.Itoa\<close> and the verb \<^verbatim>\<open>%d\<close> on a non-negative number.  The numbers printed
  are slice indices, and indices plus 22000: a Go \<^verbatim>\<open>int\<close> has 64 bits and no slice is
  long enough for the sum to wrap, so the index is a natural number.
\<close>

definition digit_char :: "nat \<Rightarrow> char" where
  "digit_char d = ''0123456789'' ! d"

fun Itoa :: "nat \<Rightarrow> string" where
  "Itoa n = (if n < 10 then [digit_char n] else Itoa (n div 10) @ [digit_char (n mod 10)])"

declare Itoa.simps [simp del]

text \<open>\<^verbatim>\<open>strings.Join(elems, sep)\<close>.\<close>

fun strings_Join :: "string list \<Rightarrow> string \<Rightarrow> string" where
  "strings_Join [] sep = []"
| "strings_Join [x] sep = x"
| "strings_Join (x # y # ys) sep = x @ sep @ strings_Join (y # ys) sep"

text \<open>
  \<^verbatim>\<open>filepath.Join(dir, name)\<close> for a clean directory path and a plain file name
  (\<^verbatim>\<open>filepath.Join\<close> also cleans its result, which changes nothing here).
\<close>

definition filepath_Join :: "path \<Rightarrow> string \<Rightarrow> path" where
  "filepath_Join dir name = dir @ ''/'' @ name"

subsection \<open>The peer loop of \<^verbatim>\<open>updateConfigFromGenesisValidators\<close>\<close>

text \<open>
  Lines 241 to 260: the loop over \<^verbatim>\<open>genesisVals\<close> with its index \<open>i\<close> and the two slices
  it appends to.  \<^verbatim>\<open>cosmosutil.VerifyPeerFormat\<close> belongs to another package and is
  the parameter \<open>verify\<close>.
\<close>

fun peerLoop :: "(peer \<Rightarrow> bool) \<Rightarrow> nat \<Rightarrow> GenesisValidator list \<Rightarrow> string list \<Rightarrow>
    TunneledPeer list \<Rightarrow> error + (string list \<times> TunneledPeer list)" where
  "peerLoop verify i [] p2pAddresses tunnelAddresses = Inr (p2pAddresses, tunnelAddresses)"
| "peerLoop verify i (val # vals) p2pAddresses tunnelAddresses =
     (if \<not> verify (Peer val) then Inl (InvalidPeer (peer_Id (Peer val)))
      else case Connection (Peer val) of
        Peer_TcpAddress tcpAddress \<Rightarrow>
          peerLoop verify (i + 1) vals
            (p2pAddresses @ [peer_Id (Peer val) @ ''@'' @ tcpAddress]) tunnelAddresses
      | Peer_HttpTunnel name address \<Rightarrow>
          (let tunneledPeer = \<lparr>Name = name, Address = address, NodeID = peer_Id (Peer val),
                 LocalPort = Itoa (i + 22000)\<rparr>
           in peerLoop verify (i + 1) vals
                (p2pAddresses @ [NodeID tunneledPeer @ ''@127.0.0.1:'' @ LocalPort tunneledPeer])
                (tunnelAddresses @ [tunneledPeer]))
      | Peer_Other \<Rightarrow> Inl InvalidPeerType)"

subsection \<open>The world and the collaborators\<close>

text \<open>
  The calls with an effect outside the process, with their arguments.  The model
  appends each call it issues to a log, whatever the outcome of the call, so that a
  theorem can say which calls a run issued and in which order.
\<close>

datatype repo = Repo path

record CloneOptions =
  URL :: string
  ReferenceName :: string
  SingleBranch :: bool

datatype call =
    Call_Init                                            \<comment> \<open>\<^verbatim>\<open>c.Init(ctx)\<close>\<close>
  | Call_chain_Build                                     \<comment> \<open>\<^verbatim>\<open>c.chain.Build(ctx, "")\<close>\<close>
  | Call_initGenesis                                     \<comment> \<open>\<^verbatim>\<open>c.initGenesis(ctx)\<close>\<close>
  | Call_detectPrefix                                    \<comment> \<open>\<^verbatim>\<open>c.detectPrefix(ctx)\<close>\<close>
  | Call_AddGenesisAccount string string
  | Call_AddVestingAccount string string string int
  | Call_CollectGentxs
  | Call_ValidateGenesis
  | Call_UnsafeReset
  | Call_SetGenesisTime path int
  | Call_RemoveAll path
  | Call_MkdirAll path
  | Call_WriteFile path bytes
  | Call_OpenFile path                                   \<comment> \<open>with \<^verbatim>\<open>os.O_RDWR|os.O_TRUNC\<close>\<close>
  | Call_WriteTo path toml_tree                          \<comment> \<open>\<^verbatim>\<open>configToml.WriteTo(file)\<close>\<close>
  | Call_SetSPNConfig "TunneledPeer list" path
  | Call_CacheBinaryForLaunchID "64 word" string string
  | Call_MkdirTemp
  | Call_PlainClone path CloneOptions
  | Call_Checkout repo string

datatype event = Ongoing string | Done string | Printed string

text \<open>
  The world: the log of calls, the events sent to the bus and the lines printed, the
  record file of the binary cache, and everything else (file system, remote
  repositories, the chain's own state) as \<open>ext\<close>, which only the collaborators read
  and change.
\<close>

record 'x world =
  calls :: "call list"
  events :: "event list"
  cache :: "(64 word \<times> string) \<rightharpoonup> string"
  ext :: 'x

type_synonym ('x, 'a) operation = "'x world \<Rightarrow> (error + 'a) \<times> 'x world"
type_synonym ('x, 'a) inspection = "'x world \<Rightarrow> error + 'a"

text \<open>
  The collaborators.  An operation may change the world and may fail; an inspection
  (a path getter, \<^verbatim>\<open>os.Stat\<close>, a checksum, loading a file) only reads it.
\<close>

record 'x env =
  chain_Home :: "('x, path) inspection"
  chain_Binary :: "('x, string) inspection"
  chain_Build :: "('x, string) operation"
  chain_GenesisPath :: "('x, path) inspection"
  chain_GentxsPath :: "('x, path) inspection"
  chain_ConfigTOMLPath :: "('x, path) inspection"
  chain_Commands :: "('x, unit) inspection"
  cmd_AddGenesisAccount :: "string \<Rightarrow> string \<Rightarrow> ('x, unit) operation"
  cmd_AddVestingAccount :: "string \<Rightarrow> string \<Rightarrow> string \<Rightarrow> int \<Rightarrow> ('x, unit) operation"
  cmd_CollectGentxs :: "('x, unit) operation"
  cmd_ValidateGenesis :: "('x, unit) operation"
  cmd_UnsafeReset :: "('x, unit) operation"
  Init :: "('x, unit) operation"
  initGenesis :: "('x, unit) operation"
  detectPrefix :: "('x, string) operation"
  SPNConfigPath :: "('x, path) inspection"
  SetSPNConfig :: "TunneledPeer list \<Rightarrow> path \<Rightarrow> ('x, unit) operation"
  ChangeAddressPrefix :: "string \<Rightarrow> string \<Rightarrow> error + string"
  SetGenesisTime :: "path \<Rightarrow> int \<Rightarrow> ('x, unit) operation"
  VerifyPeerFormat :: "peer \<Rightarrow> bool"
  BinaryChecksum :: "string \<Rightarrow> ('x, string) inspection"
  cache_load_error :: "'x world \<Rightarrow> error option"
  cache_save_error :: "'x world \<Rightarrow> error option"
  os_Stat :: "path \<Rightarrow> 'x world \<Rightarrow> error option"
  os_RemoveAll :: "path \<Rightarrow> ('x, unit) operation"
  os_MkdirAll :: "path \<Rightarrow> ('x, unit) operation"
  ioutil_WriteFile :: "path \<Rightarrow> bytes \<Rightarrow> ('x, unit) operation"
  toml_LoadFile :: "path \<Rightarrow> ('x, toml_tree) inspection"
  os_OpenFile :: "path \<Rightarrow> ('x, unit) operation"
  toml_WriteTo :: "path \<Rightarrow> toml_tree \<Rightarrow> ('x, unit) operation"
  os_MkdirTemp :: "('x, path) operation"
  git_PlainClone :: "path \<Rightarrow> CloneOptions \<Rightarrow> ('x, repo) operation"
  git_Worktree :: "repo \<Rightarrow> ('x, unit) inspection"
  git_ResolveRevision :: "repo \<Rightarrow> string \<Rightarrow> ('x, string) inspection"
  git_Checkout :: "repo \<Rightarrow> string \<Rightarrow> ('x, unit) operation"
  git_Head :: "repo \<Rightarrow> ('x, string) inspection"
  clispinner_OK :: string

subsection \<open>Sequencing\<close>

text \<open>\<open>andThen m f\<close> is \<^verbatim>\<open>x, err := m(); if err != nil { return err }; f(x)\<close>.\<close>

definition andThen :: "('w \<Rightarrow> (error + 'a) \<times> 'w) \<Rightarrow> ('a \<Rightarrow> 'w \<Rightarrow> (error + 'b) \<times> 'w) \<Rightarrow>
    'w \<Rightarrow> (error + 'b) \<times> 'w" where
  "andThen m f w = (case m w of (Inl e, w') \<Rightarrow> (Inl e, w') | (Inr a, w') \<Rightarrow> f a w')"

definition succeed :: "'a \<Rightarrow> 'w \<Rightarrow> (error + 'a) \<times> 'w" where
  "succeed a w = (Inr a, w)"

definition fail :: "error \<Rightarrow> 'w \<Rightarrow> (error + 'a) \<times> 'w" where
  "fail e w = (Inl e, w)"

definition query :: "('w \<Rightarrow> error + 'a) \<Rightarrow> 'w \<Rightarrow> (error + 'a) \<times> 'w" where
  "query r w = (r w, w)"

text \<open>
  \<open>invoke c f\<close> runs the collaborator's operation \<open>f\<close> and logs the call \<open>c\<close>; the log and
  the events are the model's own and no collaborator changes them.
\<close>

definition invoke :: "call \<Rightarrow> ('x, 'a) operation \<Rightarrow> ('x, 'a) operation" where
  "invoke c f w = (case f w of (r, w') \<Rightarrow> (r, w'\<lparr>calls := calls w @ [c], events := events w\<rparr>))"

definition send :: "event \<Rightarrow> ('x, unit) operation" where
  "send ev w = (Inr (), w\<lparr>events := events w @ [ev]\<rparr>)"

text \<open>\<^verbatim>\<open>if err := m(); err != nil { return errors.Wrap(err, msg) }\<close>.\<close>

definition wrapping :: "string \<Rightarrow> ('w \<Rightarrow> (error + 'a) \<times> 'w) \<Rightarrow> 'w \<Rightarrow> (error + 'a) \<times> 'w" where
  "wrapping msg m w = (case m w of (Inl e, w') \<Rightarrow> (Inl (Wrap e msg), w') | (Inr a, w') \<Rightarrow> (Inr a, w'))"

subsection \<open>The binary cache\<close>

text \<open>
  Modelled from the spec: \<^verbatim>\<open>CheckBinaryCacheForLaunchID\<close>, which \<^verbatim>\<open>Build\<close> calls and
  whose code is in another file of the package.  It is the \<open>Lookup\<close> of the spec's
  BuildCache, which maps a pair of launch identity and source hash to the checksum
  recorded by \<open>Store\<close>: a lookup hits when a record exists for the exact pair and the
  checksum it is given equals the recorded one.  The error that the function returns
  in the code is the failure to load the record file.
\<close>

definition CheckBinaryCacheForLaunchID :: "'x env \<Rightarrow> 64 word \<Rightarrow> string \<Rightarrow> string \<Rightarrow>
    ('x, bool) inspection" where
  "CheckBinaryCacheForLaunchID env launchID' binaryHash sourceHash w =
     (case cache_load_error env w of
        Some err \<Rightarrow> Inl err
      | None \<Rightarrow> Inr (cache w (launchID', sourceHash) = Some binaryHash))"

text \<open>
  Modelled from the spec: \<^verbatim>\<open>CacheBinaryForLaunchID\<close>, in the same file.  It is the
  \<open>Store\<close> of the spec's BuildCache: it records the checksum for the pair of launch
  identity and source hash, replacing a record of the same pair.  The error that the
  function returns in the code is the failure to save the record file.
\<close>

definition CacheBinaryForLaunchID :: "'x env \<Rightarrow> 64 word \<Rightarrow> string \<Rightarrow> string \<Rightarrow>
    ('x, unit) operation" where
  "CacheBinaryForLaunchID env launchID' binaryHash sourceHash w =
     (case cache_save_error env w of
        Some err \<Rightarrow> (Inl err, w)
      | None \<Rightarrow> (Inr (), w\<lparr>cache := (cache w)((launchID', sourceHash) \<mapsto> binaryHash)\<rparr>))"

subsection \<open>\<^verbatim>\<open>Chain.Build\<close>\<close>

text \<open>
  Lines 267 to 282 of \<^verbatim>\<open>networkchain.go\<close>: build the binary, recompute its checksum,
  store the cache record.  \<^verbatim>\<open>Build\<close> reaches them when the launch identity is zero
  and when the lookup misses.
\<close>

definition buildAndCache :: "'x env \<Rightarrow> Chain \<Rightarrow> ('x, string) operation" where
  "buildAndCache env c =
     andThen (invoke Call_chain_Build (chain_Build env)) (\<lambda>binaryName.
     andThen (query (BinaryChecksum env binaryName)) (\<lambda>binaryChecksum.
     andThen (invoke (Call_CacheBinaryForLaunchID (launchID c) binaryChecksum (hash c))
                (CacheBinaryForLaunchID env (launchID c) binaryChecksum (hash c))) (\<lambda>_.
     succeed binaryName)))"

text \<open>
  Line 254: a checksum error of the class \<^verbatim>\<open>exec.ErrNotFound\<close> is passed over, and the
  checksum then is the string returned beside the error, Go's zero value.
\<close>

definition lookupChecksum :: "'x env \<Rightarrow> string \<Rightarrow> ('x, string) inspection" where
  "lookupChecksum env binaryName w =
     (case BinaryChecksum env binaryName w of
        Inl err \<Rightarrow> if \<not> is_ErrNotFound err then Inl err else Inr ''''
      | Inr binaryChecksum \<Rightarrow> Inr binaryChecksum)"

definition Build :: "'x env \<Rightarrow> Chain \<Rightarrow> ('x, string) operation" where
  "Build env c =
     (if launchID c \<noteq> 0 then
        andThen (query (chain_Binary env)) (\<lambda>binaryName.
        andThen (query (lookupChecksum env binaryName)) (\<lambda>binaryChecksum.
        andThen (query (CheckBinaryCacheForLaunchID env (launchID c) binaryChecksum (hash c)))
          (\<lambda>binaryMatch.
        if binaryMatch then succeed binaryName
        else buildAndCache env c)))
      else buildAndCache env c)"

subsection \<open>\<^verbatim>\<open>fetchSource\<close>\<close>

text \<open>
  A \<^verbatim>\<open>plumbing.Hash\<close> is modelled by its hexadecimal string, so that
  \<^verbatim>\<open>ref.Hash().String()\<close> is the hash that \<open>git_Head\<close> returns; the worktree of a
  repository is addressed through the repository.
\<close>

definition fetchSource :: "'x env \<Rightarrow> string \<Rightarrow> string \<Rightarrow> string \<Rightarrow> ('x, path \<times> string) operation"
  where
  "fetchSource env url ref customHash =
     andThen (invoke Call_MkdirTemp (os_MkdirTemp env)) (\<lambda>path.
     andThen (invoke (Call_MkdirAll path) (os_MkdirAll env path)) (\<lambda>_.
     let gitoptions = \<lparr>URL = url, ReferenceName = '''', SingleBranch = False\<rparr>;
         gitoptions = (if ref \<noteq> '''' then gitoptions\<lparr>ReferenceName := ref, SingleBranch := True\<rparr>
                       else gitoptions)
     in
     andThen (invoke (Call_PlainClone path gitoptions) (git_PlainClone env path gitoptions))
       (\<lambda>repo.
     if customHash \<noteq> '''' then
       andThen (query (git_Worktree env repo)) (\<lambda>wt.
       andThen (query (git_ResolveRevision env repo customHash)) (\<lambda>githash.
       andThen (invoke (Call_Checkout repo githash) (git_Checkout env repo githash)) (\<lambda>_.
       succeed (path, customHash))))
     else
       andThen (query (git_Head env repo)) (\<lambda>head.
       succeed (path, head)))))"

subsection \<open>Genesis assembly (\<^verbatim>\<open>prepare.go\<close>)\<close>

text \<open>The loop of \<^verbatim>\<open>applyGenesisAccounts\<close>, lines 146 to 158.\<close>

fun accountLoop :: "'x env \<Rightarrow> GenesisAccount list \<Rightarrow> string \<Rightarrow> ('x, unit) operation" where
  "accountLoop env [] addressPrefix = succeed ()"
| "accountLoop env (acc # accs) addressPrefix =
     (case ChangeAddressPrefix env (acc_Address acc) addressPrefix of
        Inl err \<Rightarrow> fail err
      | Inr address \<Rightarrow>
          andThen (invoke (Call_AddGenesisAccount address (Coins acc))
                     (cmd_AddGenesisAccount env address (Coins acc))) (\<lambda>_.
          accountLoop env accs addressPrefix))"

definition applyGenesisAccounts :: "'x env \<Rightarrow> GenesisAccount list \<Rightarrow> string \<Rightarrow>
    ('x, unit) operation" where
  "applyGenesisAccounts env genesisAccs addressPrefix =
     andThen (query (chain_Commands env)) (\<lambda>cmd.
     accountLoop env genesisAccs addressPrefix)"

text \<open>The loop of \<^verbatim>\<open>applyVestingAccounts\<close>, lines 174 to 191.\<close>

fun vestingLoop :: "'x env \<Rightarrow> VestingAccount list \<Rightarrow> string \<Rightarrow> ('x, unit) operation" where
  "vestingLoop env [] addressPrefix = succeed ()"
| "vestingLoop env (acc # accs) addressPrefix =
     (case ChangeAddressPrefix env (vest_Address acc) addressPrefix of
        Inl err \<Rightarrow> fail err
      | Inr address \<Rightarrow>
          andThen (invoke
                     (Call_AddVestingAccount address (TotalBalance acc) (Vesting acc) (EndTime acc))
                     (cmd_AddVestingAccount env address (TotalBalance acc) (Vesting acc)
                        (EndTime acc))) (\<lambda>_.
          vestingLoop env accs addressPrefix))"

definition applyVestingAccounts :: "'x env \<Rightarrow> VestingAccount list \<Rightarrow> string \<Rightarrow>
    ('x, unit) operation" where
  "applyVestingAccounts env vestingAccs addressPrefix =
     andThen (query (chain_Commands env)) (\<lambda>cmd.
     vestingLoop env vestingAccs addressPrefix)"

text \<open>
  \<^verbatim>\<open>updateConfigFromGenesisValidators\<close>.  The check of \<^verbatim>\<open>err\<close> after \<^verbatim>\<open>configToml.Set\<close>
  (line 273) reads the \<^verbatim>\<open>err\<close> of \<^verbatim>\<open>toml.LoadFile\<close>, which is nil there, and never
  returns; the deferred \<^verbatim>\<open>Close\<close> has no result.
\<close>

definition updateConfigFromGenesisValidators :: "'x env \<Rightarrow> GenesisValidator list \<Rightarrow>
    ('x, unit) operation" where
  "updateConfigFromGenesisValidators env genesisVals =
     (case peerLoop (VerifyPeerFormat env) 0 genesisVals [] [] of
        Inl err \<Rightarrow> fail err
      | Inr (p2pAddresses, tunnelAddresses) \<Rightarrow>
          andThen
            (if length p2pAddresses > 0 then
               andThen (query (chain_ConfigTOMLPath env)) (\<lambda>configPath.
               andThen (query (toml_LoadFile env configPath)) (\<lambda>loaded.
               let configToml = loaded(''p2p.persistent_peers'' \<mapsto>
                       TomlString (strings_Join p2pAddresses '',''));
                   configToml = (if length tunnelAddresses > 0
                       then configToml(''p2p.allow_duplicate_ip'' \<mapsto> TomlBool True)
                       else configToml)
               in
               andThen (invoke (Call_OpenFile configPath) (os_OpenFile env configPath)) (\<lambda>_.
               invoke (Call_WriteTo configPath configToml)
                 (toml_WriteTo env configPath configToml))))
             else succeed ())
            (\<lambda>_.
          if length tunnelAddresses > 0 then
            andThen (query (SPNConfigPath env)) (\<lambda>tunneledPeersConfigPath.
            invoke (Call_SetSPNConfig tunnelAddresses tunneledPeersConfigPath)
              (SetSPNConfig env tunnelAddresses tunneledPeersConfigPath))
          else succeed ()))"

text \<open>The loop that writes the gentxs, lines 216 to 221 of \<^verbatim>\<open>applyGenesisValidators\<close>.\<close>

fun gentxLoop :: "'x env \<Rightarrow> path \<Rightarrow> nat \<Rightarrow> GenesisValidator list \<Rightarrow> ('x, unit) operation" where
  "gentxLoop env gentxDir i [] = succeed ()"
| "gentxLoop env gentxDir i (val # vals) =
     (let gentxPath = filepath_Join gentxDir (''gentx'' @ Itoa i @ ''.json'')
      in andThen (invoke (Call_WriteFile gentxPath (Gentx val))
                    (ioutil_WriteFile env gentxPath (Gentx val))) (\<lambda>_.
         gentxLoop env gentxDir (i + 1) vals))"

definition applyGenesisValidators :: "'x env \<Rightarrow> GenesisValidator list \<Rightarrow> ('x, unit) operation"
  where
  "applyGenesisValidators env genesisVals =
     (if length genesisVals = 0 then succeed ()
      else
        andThen (query (chain_GentxsPath env)) (\<lambda>gentxDir.
        andThen (invoke (Call_RemoveAll gentxDir) (os_RemoveAll env gentxDir)) (\<lambda>_.
        andThen (invoke (Call_MkdirAll gentxDir) (os_MkdirAll env gentxDir)) (\<lambda>_.
        andThen (gentxLoop env gentxDir 0 genesisVals) (\<lambda>_.
        andThen (query (chain_Commands env)) (\<lambda>cmd.
        andThen (invoke Call_CollectGentxs (cmd_CollectGentxs env)) (\<lambda>_.
        updateConfigFromGenesisValidators env genesisVals)))))))"

definition buildGenesis :: "'x env \<Rightarrow> Chain \<Rightarrow> GenesisInformation \<Rightarrow> ('x, unit) operation" where
  "buildGenesis env c gi =
     andThen (send (Ongoing ''Building the genesis'')) (\<lambda>_.
     andThen (wrapping ''error detecting chain prefix''
                (invoke Call_detectPrefix (detectPrefix env))) (\<lambda>addressPrefix.
     andThen (wrapping ''error applying genesis accounts to genesis''
                (applyGenesisAccounts env (GenesisAccounts gi) addressPrefix)) (\<lambda>_.
     andThen (wrapping ''error applying vesting accounts to genesis''
                (applyVestingAccounts env (VestingAccounts gi) addressPrefix)) (\<lambda>_.
     andThen (wrapping ''error applying genesis validators to genesis''
                (applyGenesisValidators env (GenesisValidators gi))) (\<lambda>_.
     andThen (wrapping ''genesis of the blockchain can't be read''
                (query (chain_GenesisPath env))) (\<lambda>genesisPath.
     andThen (wrapping ''genesis time can't be set''
                (invoke (Call_SetGenesisTime genesisPath (launchTime c))
                   (SetGenesisTime env genesisPath (launchTime c)))) (\<lambda>_.
     send (Done ''Genesis built''))))))))"

subsection \<open>\<^verbatim>\<open>Chain.Prepare\<close>\<close>

text \<open>Lines 73 to 96: what both branches of the switch continue with.\<close>

definition prepareGenesis :: "'x env \<Rightarrow> Chain \<Rightarrow> GenesisInformation \<Rightarrow> string \<Rightarrow> path \<Rightarrow>
    ('x, unit) operation" where
  "prepareGenesis env c gi binaryName chainHome =
     andThen (buildGenesis env c gi) (\<lambda>_.
     andThen (query (chain_Commands env)) (\<lambda>cmd.
     andThen (invoke Call_ValidateGenesis (cmd_ValidateGenesis env)) (\<lambda>_.
     andThen (invoke Call_UnsafeReset (cmd_UnsafeReset env)) (\<lambda>_.
     andThen (send (Printed (clispinner_OK env @ '' Chain is prepared for launch''))) (\<lambda>_.
     andThen (send (Printed ''You can start your node by running the following command:''))
       (\<lambda>_.
     send (Printed (binaryName @ '' start --home '' @ chainHome))))))))"

definition Prepare :: "'x env \<Rightarrow> Chain \<Rightarrow> GenesisInformation \<Rightarrow> ('x, unit) operation" where
  "Prepare env c gi =
     andThen (query (chain_Home env)) (\<lambda>chainHome w.
     case os_Stat env chainHome w of
       Some err \<Rightarrow>
         if os_IsNotExist err then
           (andThen (invoke Call_Init (Init env)) (\<lambda>_.
            andThen (query (chain_Binary env)) (\<lambda>binaryName.
            prepareGenesis env c gi binaryName chainHome))) w
         else fail err w
     | None \<Rightarrow>
         (andThen (send (Ongoing ''Building the blockchain'')) (\<lambda>_.
          andThen (invoke Call_chain_Build (chain_Build env)) (\<lambda>binaryName.
          andThen (send (Done ''Blockchain build complete'')) (\<lambda>_.
          andThen (send (Ongoing ''Initializing the genesis'')) (\<lambda>_.
          andThen (invoke Call_initGenesis (initGenesis env)) (\<lambda>_.
          andThen (send (Done ''Genesis initialized'')) (\<lambda>_.
          prepareGenesis env c gi binaryName chainHome))))))) w)"

section \<open>Auxiliary definitions\<close>

definition atoi :: "string \<Rightarrow> nat" where
  "atoi s = foldl (\<lambda>a ch. 10 * a + (of_char ch - 48)) 0 s"

text \<open>
  The entry a validator at index \<open>i\<close> adds to \<^verbatim>\<open>p2pAddresses\<close>, and the entries it adds to
  \<^verbatim>\<open>tunnelAddresses\<close>: one when its connection is a tunnel, none otherwise.
\<close>

definition isTunnel :: "GenesisValidator \<Rightarrow> bool" where
  "isTunnel val = (case Connection (Peer val) of Peer_HttpTunnel name address \<Rightarrow> True | _ \<Rightarrow> False)"

definition peerAddress :: "nat \<Rightarrow> GenesisValidator \<Rightarrow> string" where
  "peerAddress i val =
     (case Connection (Peer val) of
        Peer_TcpAddress tcpAddress \<Rightarrow> peer_Id (Peer val) @ ''@'' @ tcpAddress
      | Peer_HttpTunnel name address \<Rightarrow> peer_Id (Peer val) @ ''@127.0.0.1:'' @ Itoa (i + 22000)
      | Peer_Other \<Rightarrow> [])"

definition tunnelOf :: "nat \<Rightarrow> GenesisValidator \<Rightarrow> TunneledPeer list" where
  "tunnelOf i val =
     (case Connection (Peer val) of
        Peer_HttpTunnel name address \<Rightarrow>
          [\<lparr>Name = name, Address = address, NodeID = peer_Id (Peer val),
            LocalPort = Itoa (i + 22000)\<rparr>]
      | _ \<Rightarrow> [])"

text \<open>A descriptor that matches neither topology: the loop returns an error on it.\<close>

definition malformed :: "(peer \<Rightarrow> bool) \<Rightarrow> GenesisValidator \<Rightarrow> bool" where
  "malformed verify val = (\<not> verify (Peer val) \<or> Connection (Peer val) = Peer_Other)"

text \<open>The calls that write the peer configuration: \<^verbatim>\<open>config.toml\<close> and the tunnel file.\<close>

fun writesPeerConfig :: "call \<Rightarrow> bool" where
  "writesPeerConfig (Call_OpenFile p) = True"
| "writesPeerConfig (Call_WriteTo p t) = True"
| "writesPeerConfig (Call_SetSPNConfig ts p) = True"
| "writesPeerConfig _ = False"

text \<open>\<open>issues P m\<close>: whatever \<open>m\<close> returns, it only adds calls that satisfy \<open>P\<close> to the log.\<close>

definition issues :: "(call \<Rightarrow> bool) \<Rightarrow> ('x, 'a) operation \<Rightarrow> bool" where
  "issues P m = (\<forall>w. \<exists>new. calls (snd (m w)) = calls w @ new \<and> list_all P new)"

text \<open>An operation that returns an error in every world.\<close>

definition fails :: "('x, 'a) operation \<Rightarrow> bool" where
  "fails m = (\<forall>w. \<exists>e. fst (m w) = Inl e)"
text \<open>The tree that \<^verbatim>\<open>updateConfigFromGenesisValidators\<close> writes for a loaded tree.\<close>

definition writtenConfig :: "toml_tree \<Rightarrow> GenesisValidator list \<Rightarrow> toml_tree" where
  "writtenConfig loaded vals =
     (let peers = loaded(''p2p.persistent_peers'' \<mapsto>
            TomlString (strings_Join (map (\<lambda>(i, v). peerAddress i v) (enumerate 0 vals)) '',''))
      in if \<exists>v \<in> set vals. isTunnel v then peers(''p2p.allow_duplicate_ip'' \<mapsto> TomlBool True)
         else peers)"

subsection \<open>A concrete world for witnesses and counterexamples\<close>

text \<open>
  A small instance of the collaborators, after the interface of the spec's section 6: a
  disk with the home directory, the genesis document (the entries folded into it), the
  gentx files, \<^verbatim>\<open>config.toml\<close>, the tunnel file, the checksum that the checksum tool
  gives for the binary, the validator key (counted by generation) and the remote
  repository's head.
\<close>

record disk =
  home_exists :: bool
  genesis_doc :: "string list"
  gentx_files :: "(path \<times> bytes) list"
  config_toml :: toml_tree
  spn_config :: "TunneledPeer list"
  binary_sum :: "error + string"
  validator_keys :: nat
  checked_out :: string

definition on_disk :: "(disk \<Rightarrow> disk) \<Rightarrow> (disk, unit) operation" where
  "on_disk f w = (Inr (), w\<lparr>ext := f (ext w)\<rparr>)"

definition demo_env :: "disk env" where
  "demo_env = \<lparr>
     chain_Home = (\<lambda>w. Inr ''/home/chain''),
     chain_Binary = (\<lambda>w. Inr ''chaind''),
     chain_Build = (\<lambda>w. (Inr ''chaind'', w)),
     chain_GenesisPath = (\<lambda>w. Inr ''/home/chain/config/genesis.json''),
     chain_GentxsPath = (\<lambda>w. Inr ''/home/chain/config/gentx''),
     chain_ConfigTOMLPath = (\<lambda>w. Inr ''/home/chain/config/config.toml''),
     chain_Commands = (\<lambda>w. Inr ()),
     cmd_AddGenesisAccount = (\<lambda>address coins.
       on_disk (\<lambda>d. d\<lparr>genesis_doc := genesis_doc d @ [address]\<rparr>)),
     cmd_AddVestingAccount = (\<lambda>address total vesting endTime.
       on_disk (\<lambda>d. d\<lparr>genesis_doc := genesis_doc d @ [address]\<rparr>)),
     cmd_CollectGentxs = on_disk (\<lambda>d. d\<lparr>genesis_doc := genesis_doc d @ map snd (gentx_files d)\<rparr>),
     cmd_ValidateGenesis = on_disk (\<lambda>d. d),
     cmd_UnsafeReset = on_disk (\<lambda>d. d),
     Init = on_disk (\<lambda>d. d\<lparr>home_exists := True, validator_keys := validator_keys d + 1\<rparr>),
     initGenesis = on_disk (\<lambda>d. d\<lparr>genesis_doc := []\<rparr>),
     detectPrefix = (\<lambda>w. (Inr ''cosmos'', w)),
     SPNConfigPath = (\<lambda>w. Inr ''/home/chain/spn.yml''),
     SetSPNConfig = (\<lambda>tunnels p. on_disk (\<lambda>d. d\<lparr>spn_config := tunnels\<rparr>)),
     ChangeAddressPrefix = (\<lambda>address prefix. Inr (prefix @ address)),
     SetGenesisTime = (\<lambda>p t. on_disk (\<lambda>d. d)),
     VerifyPeerFormat = (\<lambda>p. peer_Id p \<noteq> [] \<and> Connection p \<noteq> Peer_Other),
     BinaryChecksum = (\<lambda>binaryName w. binary_sum (ext w)),
     cache_load_error = (\<lambda>w. None),
     cache_save_error = (\<lambda>w. None),
     os_Stat = (\<lambda>p w. if home_exists (ext w) then None else Some ErrNotExist),
     os_RemoveAll = (\<lambda>p. on_disk (\<lambda>d. d\<lparr>gentx_files := []\<rparr>)),
     os_MkdirAll = (\<lambda>p. on_disk (\<lambda>d. d)),
     ioutil_WriteFile = (\<lambda>p b. on_disk (\<lambda>d. d\<lparr>gentx_files := gentx_files d @ [(p, b)]\<rparr>)),
     toml_LoadFile = (\<lambda>p w. Inr (config_toml (ext w))),
     os_OpenFile = (\<lambda>p. on_disk (\<lambda>d. d\<lparr>config_toml := Map.empty\<rparr>)),
     toml_WriteTo = (\<lambda>p t. on_disk (\<lambda>d. d\<lparr>config_toml := t\<rparr>)),
     os_MkdirTemp = (\<lambda>w. (Inr ''/tmp/src'', w)),
     git_PlainClone = (\<lambda>p options w. (Inr (Repo p), w)),
     git_Worktree = (\<lambda>r w. Inr ()),
     git_ResolveRevision = (\<lambda>r revision w. Inr revision),
     git_Checkout = (\<lambda>r h. on_disk (\<lambda>d. d\<lparr>checked_out := h\<rparr>)),
     git_Head = (\<lambda>r w. Inr ''0a1b2c''),
     clispinner_OK = ''OK''
   \<rparr>"

definition demo_disk :: disk where
  "demo_disk = \<lparr>home_exists = True, genesis_doc = [], gentx_files = [],
     config_toml = Map.empty, spn_config = [], binary_sum = Inr ''5f3a'',
     validator_keys = 1, checked_out = []\<rparr>"

definition demo_world :: "disk world" where
  "demo_world = \<lparr>calls = [], events = [], cache = Map.empty, ext = demo_disk\<rparr>"

definition demo_chain :: Chain where
  "demo_chain = \<lparr>launchID = 7, hash = ''0a1b2c'', launchTime = 1700000000\<rparr>"

definition direct_validator :: GenesisValidator where
  "direct_validator =
     \<lparr>Gentx = ''tx-direct'', Peer = \<lparr>peer_Id = ''V1'', Connection = Peer_TcpAddress ''1.2.3.4:26656''\<rparr>\<rparr>"

definition tunnel_validator :: GenesisValidator where
  "tunnel_validator =
     \<lparr>Gentx = ''tx-tunnel'',
      Peer = \<lparr>peer_Id = ''V2'', Connection = Peer_HttpTunnel ''relayA'' ''http://relay.a''\<rparr>\<rparr>"

definition malformed_validator :: GenesisValidator where
  "malformed_validator = \<lparr>Gentx = ''tx-bad'', Peer = \<lparr>peer_Id = ''V3'', Connection = Peer_Other\<rparr>\<rparr>"

text \<open>Worlds with a cache record, without the checksum tool, with an unreadable binary.\<close>

definition cached_world :: "disk world" where
  "cached_world = demo_world\<lparr>cache := [(7, ''0a1b2c'') \<mapsto> ''5f3a'']\<rparr>"

definition missing_tool_world :: "disk world" where
  "missing_tool_world = demo_world\<lparr>ext := demo_disk\<lparr>binary_sum := Inl ErrNotFound\<rparr>\<rparr>"

definition unreadable_binary_world :: "disk world" where
  "unreadable_binary_world =
     demo_world\<lparr>ext := demo_disk\<lparr>binary_sum := Inl (Failure ''permission denied'')\<rparr>\<rparr>"

text \<open>A world without the home directory, and genesis information to prepare with.\<close>

definition fresh_world :: "disk world" where
  "fresh_world = demo_world\<lparr>ext := demo_disk\<lparr>home_exists := False, validator_keys := 0\<rparr>\<rparr>"

definition demo_genesis :: GenesisInformation where
  "demo_genesis = \<lparr>GenesisAccounts = [\<lparr>acc_Address = ''alice'', Coins = ''100stake''\<rparr>],
     VestingAccounts = [\<lparr>vest_Address = ''bob'', TotalBalance = ''50stake'', Vesting = ''20stake'',
        EndTime = 1800000000\<rparr>],
     GenesisValidators = [direct_validator, tunnel_validator]\<rparr>"

section \<open>Properties\<close>

text \<open>Unfolding the sequencing combinators and the concrete world.\<close>

lemmas run_simps = andThen_def succeed_def fail_def query_def invoke_def send_def wrapping_def
  on_disk_def Let_def

lemmas demo_simps = demo_env_def demo_world_def demo_disk_def demo_chain_def direct_validator_def
  tunnel_validator_def malformed_validator_def

lemmas world_simps = cached_world_def missing_tool_world_def unreadable_binary_world_def

lemmas model_defs = buildGenesis_def applyGenesisAccounts_def applyVestingAccounts_def
  applyGenesisValidators_def updateConfigFromGenesisValidators_def filepath_Join_def

subsection \<open>Decimal printing is injective\<close>

lemma of_char_digit_char:
  assumes "d < 10"
  shows "of_char (digit_char d) = (48 + d :: nat)"
proof -
  from assms have "d \<in> {0, 1, 2, 3, 4, 5, 6, 7, 8, 9}"
    by auto
  then show ?thesis
    by (auto simp: digit_char_def)
qed

lemma atoi_Itoa: "atoi (Itoa n) = n"
proof (induction n rule: Itoa.induct)
  case (1 n)
  show ?case
  proof (cases "n < 10")
    case True
    then show ?thesis
      by (simp add: Itoa.simps [of n] atoi_def of_char_digit_char)
  next
    case False
    with 1 have "atoi (Itoa (n div 10)) = n div 10"
      by simp
    with False show ?thesis
      by (simp add: Itoa.simps [of n] atoi_def of_char_digit_char)
  qed
qed

lemma Itoa_inj: "Itoa m = Itoa n \<Longrightarrow> m = n"
  by (metis atoi_Itoa)


lemma Itoa_digit: "n < 10 \<Longrightarrow> Itoa n = [digit_char n]"
  by (simp add: Itoa.simps [of n])

lemma Itoa_step: "10 \<le> n \<Longrightarrow> Itoa n = Itoa (n div 10) @ [digit_char (n mod 10)]"
  by (simp add: Itoa.simps [of n])

lemmas Itoa_eval = Itoa_digit Itoa_step digit_char_def

subsection \<open>What the peer loop computes\<close>

lemma peerLoop_acc:
  "peerLoop verify i vals ps ts = Inr (ps', ts') \<Longrightarrow>
     ps' = ps @ map (\<lambda>(j, v). peerAddress j v) (enumerate i vals) \<and>
     ts' = ts @ concat (map (\<lambda>(j, v). tunnelOf j v) (enumerate i vals))"
proof (induction vals arbitrary: i ps ts)
  case Nil
  then show ?case by simp
next
  case (Cons val vals)
  show ?case
  proof (cases "Connection (Peer val)")
    case (Peer_TcpAddress a)
    with Cons.prems
    have "peerLoop verify (Suc i) vals (ps @ [peer_Id (Peer val) @ ''@'' @ a]) ts = Inr (ps', ts')"
      by (simp split: if_splits)
    from Cons.IH [OF this] Peer_TcpAddress show ?thesis
      by (simp add: peerAddress_def tunnelOf_def)
  next
    case (Peer_HttpTunnel n a)
    with Cons.prems
    have "peerLoop verify (Suc i) vals
        (ps @ [peer_Id (Peer val) @ ''@127.0.0.1:'' @ Itoa (i + 22000)])
        (ts @ [\<lparr>Name = n, Address = a, NodeID = peer_Id (Peer val),
                LocalPort = Itoa (i + 22000)\<rparr>]) = Inr (ps', ts')"
      by (simp split: if_splits)
    from Cons.IH [OF this] Peer_HttpTunnel show ?thesis
      by (simp add: peerAddress_def tunnelOf_def)
  next
    case Peer_Other
    with Cons.prems show ?thesis
      by (simp split: if_splits)
  qed
qed

lemma peerLoop_malformed:
  "\<exists>v \<in> set vals. malformed verify v \<Longrightarrow> \<exists>e. peerLoop verify i vals ps ts = Inl e"
proof (induction vals arbitrary: i ps ts)
  case Nil
  then show ?case by simp
next
  case (Cons val vals)
  then show ?case
    by (cases "Connection (Peer val)") (auto simp: malformed_def)
qed

lemma peerLoop_wellformed:
  "\<forall>v \<in> set vals. \<not> malformed verify v \<Longrightarrow> \<exists>r. peerLoop verify i vals ps ts = Inr r"
proof (induction vals arbitrary: i ps ts)
  case Nil
  then show ?case by simp
next
  case (Cons val vals)
  then show ?case
    by (cases "Connection (Peer val)") (auto simp: malformed_def Let_def)
qed






subsection \<open>Which calls an operation issues, and operations that fail\<close>

lemma issuesI: "(\<And>w. \<exists>new. calls (snd (m w)) = calls w @ new \<and> list_all P new) \<Longrightarrow> issues P m"
  by (simp add: issues_def)

lemma issuesD: "issues P m \<Longrightarrow> \<exists>new. calls (snd (m w)) = calls w @ new \<and> list_all P new"
  by (simp add: issues_def)

lemma issues_succeed [intro!]: "issues P (succeed a)"
  by (simp add: issues_def succeed_def)

lemma issues_fail [intro!]: "issues P (fail e)"
  by (simp add: issues_def fail_def)

lemma issues_query [intro!]: "issues P (query r)"
  by (simp add: issues_def query_def)

lemma issues_send [intro!]: "issues P (send ev)"
  by (simp add: issues_def send_def)

lemma issues_invoke [intro]: "P c \<Longrightarrow> issues P (invoke c f)"
  by (simp add: issues_def invoke_def split: prod.splits)

lemma issues_wrapping [intro!]: "issues P m \<Longrightarrow> issues P (wrapping msg m)"
  unfolding issues_def wrapping_def
proof
  fix w
  assume a: "\<forall>w. \<exists>new. calls (snd (m w)) = calls w @ new \<and> list_all P new"
  then obtain new where "calls (snd (m w)) = calls w @ new \<and> list_all P new"
    by blast
  then show "\<exists>new. calls (snd (case m w of (Inl e, w') \<Rightarrow> (Inl (Wrap e msg), w')
      | (Inr a, w') \<Rightarrow> (Inr a, w'))) = calls w @ new \<and> list_all P new"
    by (cases "m w") (auto split: sum.splits)
qed

lemma issues_andThen [intro!]:
  assumes m: "issues P m" and f: "\<And>a. issues P (f a)"
  shows "issues P (andThen m f)"
proof (rule issuesI)
  fix w
  obtain r w1 where mw: "m w = (r, w1)"
    by (cases "m w")
  from issuesD [OF m, of w] mw obtain new1 where n1: "calls w1 = calls w @ new1" "list_all P new1"
    by auto
  show "\<exists>new. calls (snd (andThen m f w)) = calls w @ new \<and> list_all P new"
  proof (cases r)
    case (Inl e)
    with mw n1 show ?thesis
      by (simp add: andThen_def)
  next
    case (Inr a)
    from issuesD [OF f, of a w1] obtain new2
      where "calls (snd (f a w1)) = calls w1 @ new2" "list_all P new2"
      by auto
    with Inr mw n1 show ?thesis
      by (simp add: andThen_def)
  qed
qed

lemma issues_if [intro!]: "(b \<Longrightarrow> issues P m) \<Longrightarrow> (\<not> b \<Longrightarrow> issues P n) \<Longrightarrow> issues P (if b then m else n)"
  by simp

lemma issues_accountLoop: "(\<And>a c. P (Call_AddGenesisAccount a c)) \<Longrightarrow> issues P (accountLoop env accs prefix)"
  by (induction accs) (auto split: sum.splits)

lemma issues_vestingLoop:
  "(\<And>a t v e. P (Call_AddVestingAccount a t v e)) \<Longrightarrow> issues P (vestingLoop env accs prefix)"
  by (induction accs) (auto split: sum.splits)

lemma issues_gentxLoop:
  "(\<And>p b. P (Call_WriteFile p b)) \<Longrightarrow> issues P (gentxLoop env dir i vals)"
  by (induction vals arbitrary: i) (auto simp: Let_def)

lemma updateConfig_malformed:
  assumes "\<exists>v \<in> set vals. malformed (VerifyPeerFormat env) v"
  shows "\<exists>e. updateConfigFromGenesisValidators env vals = fail e"
proof -
  from peerLoop_malformed [OF assms] obtain e
    where "peerLoop (VerifyPeerFormat env) 0 vals [] [] = Inl e"
    by blast
  then have "updateConfigFromGenesisValidators env vals = fail e"
    by (simp add: updateConfigFromGenesisValidators_def)
  then show ?thesis
    by (rule exI)
qed

lemma issues_applyGenesisValidators_malformed:
  assumes "\<exists>v \<in> set vals. malformed (VerifyPeerFormat env) v"
  shows "issues (\<lambda>k. \<not> writesPeerConfig k) (applyGenesisValidators env vals)"
proof -
  from updateConfig_malformed [OF assms] obtain e
    where "updateConfigFromGenesisValidators env vals = fail e"
    by blast
  then show ?thesis
    unfolding applyGenesisValidators_def
    by (auto intro!: issues_gentxLoop)
qed

lemma fails_fail [intro!]: "fails (fail e)"
  by (simp add: fails_def fail_def)

lemma fails_andThen [intro!]: "(\<And>a. fails (f a)) \<Longrightarrow> fails (andThen m f)"
  unfolding fails_def andThen_def
  by (auto split: prod.splits sum.splits)

lemma fails_andThen_first: "fails m \<Longrightarrow> fails (andThen m f)"
  unfolding fails_def andThen_def
  by (auto split: prod.splits sum.splits) (metis fst_conv sum.distinct(1))

lemma fails_wrapping [intro!]: "fails m \<Longrightarrow> fails (wrapping msg m)"
  unfolding fails_def wrapping_def
  by (auto split: prod.splits sum.splits) (metis fst_conv sum.distinct(1))

lemma fails_applyGenesisValidators:
  assumes "\<exists>v \<in> set vals. malformed (VerifyPeerFormat env) v"
  shows "fails (applyGenesisValidators env vals)"
proof -
  from updateConfig_malformed [OF assms] obtain e
    where "updateConfigFromGenesisValidators env vals = fail e"
    by blast
  moreover from assms have "length vals \<noteq> 0"
    by auto
  ultimately show ?thesis
    unfolding applyGenesisValidators_def by auto
qed

lemma fails_buildGenesis:
  assumes "\<exists>v \<in> set (GenesisValidators gi). malformed (VerifyPeerFormat env) v"
  shows "fails (buildGenesis env c gi)"
  unfolding buildGenesis_def
  by (intro fails_andThen fails_andThen_first fails_wrapping fails_applyGenesisValidators assms)

lemma issues_buildGenesis_malformed:
  assumes "\<exists>v \<in> set (GenesisValidators gi). malformed (VerifyPeerFormat env) v"
  shows "issues (\<lambda>k. \<not> writesPeerConfig k) (buildGenesis env c gi)"
  unfolding buildGenesis_def applyGenesisAccounts_def applyVestingAccounts_def
  by (intro issues_andThen issues_wrapping issues_send issues_query issues_invoke
      issues_accountLoop issues_vestingLoop issues_applyGenesisValidators_malformed assms) simp_all

text \<open>
  C1 (as amended).  When the descriptor of at least one validator is malformed, the
  genesis build returns an error, and none of the calls it issued writes the peer
  configuration: \<^verbatim>\<open>config.toml\<close> is neither opened nor written and the tunnel file is
  not set.  Nothing is said of the genesis document, which the steps before the peer
  check (accounts, vesting accounts, the gentx directory, \<^verbatim>\<open>collect-gentxs\<close>) may
  already have changed.
\<close>

theorem malformed_peer_aborts:
  assumes "\<exists>v \<in> set (GenesisValidators gi). malformed (VerifyPeerFormat env) v"
  shows "(\<exists>e. fst (buildGenesis env c gi w) = Inl e) \<and>
         (\<exists>new. calls (snd (buildGenesis env c gi w)) = calls w @ new \<and>
                (\<forall>k \<in> set new. \<not> writesPeerConfig k))"
proof
  from fails_buildGenesis [OF assms] show "\<exists>e. fst (buildGenesis env c gi w) = Inl e"
    by (simp add: fails_def)
  from issuesD [OF issues_buildGenesis_malformed [OF assms]]
  show "\<exists>new. calls (snd (buildGenesis env c gi w)) = calls w @ new \<and>
                (\<forall>k \<in> set new. \<not> writesPeerConfig k)"
    by (simp add: list_all_iff)
qed

theorem malformed_peer_aborts_witness:
  "malformed (VerifyPeerFormat demo_env) malformed_validator \<and>
   (\<exists>e. fst (buildGenesis demo_env demo_chain
      \<lparr>GenesisAccounts = [], VestingAccounts = [],
        GenesisValidators = [direct_validator, malformed_validator]\<rparr> demo_world) = Inl e) \<and>
   (\<exists>new. calls (snd (buildGenesis demo_env demo_chain
      \<lparr>GenesisAccounts = [], VestingAccounts = [],
        GenesisValidators = [direct_validator, malformed_validator]\<rparr> demo_world)) =
        calls demo_world @ new \<and> list_all (\<lambda>k. \<not> writesPeerConfig k) new)"
proof -
  let ?gi = "\<lparr>GenesisAccounts = [], VestingAccounts = [],
        GenesisValidators = [direct_validator, malformed_validator]\<rparr>"
  have bad: "malformed (VerifyPeerFormat demo_env) malformed_validator"
    by (simp add: malformed_def demo_simps)
  then have "\<exists>v \<in> set (GenesisValidators ?gi). malformed (VerifyPeerFormat demo_env) v"
    by simp
  from malformed_peer_aborts [OF this, of demo_chain demo_world] bad show ?thesis
    by (simp add: list_all_iff)
qed

text \<open>
  C1 as stated fails on the genesis document.  With a direct validator and a malformed
  one, the build returns the error of the malformed descriptor, and the genesis
  document, empty before, then holds both gentxs: \<^verbatim>\<open>collect-gentxs\<close> ran before the
  peer descriptors were checked.
\<close>

theorem genesis_mutated_counterexample:
  "malformed (VerifyPeerFormat demo_env) malformed_validator \<and>
   fst (buildGenesis demo_env demo_chain
      \<lparr>GenesisAccounts = [], VestingAccounts = [],
        GenesisValidators = [direct_validator, malformed_validator]\<rparr> demo_world) =
     Inl (Wrap (InvalidPeer ''V3'') ''error applying genesis validators to genesis'') \<and>
   genesis_doc (ext demo_world) = [] \<and>
   genesis_doc (ext (snd (buildGenesis demo_env demo_chain
      \<lparr>GenesisAccounts = [], VestingAccounts = [],
        GenesisValidators = [direct_validator, malformed_validator]\<rparr> demo_world))) =
     [''tx-direct'', ''tx-bad'']"
  by (simp add: buildGenesis_def applyGenesisAccounts_def applyVestingAccounts_def
      applyGenesisValidators_def updateConfigFromGenesisValidators_def run_simps demo_simps
      Itoa_eval filepath_Join_def malformed_def)

subsection \<open>Successful runs of the validator step\<close>

lemma andThen_Inr:
  assumes "andThen m f w = (Inr b, w')"
  obtains a w1 where "m w = (Inr a, w1)" and "f a w1 = (Inr b, w')"
  using assms by (auto simp: andThen_def split: prod.splits sum.splits)

lemma invoke_Inr:
  assumes "invoke c f w = (Inr a, w1)"
  shows "calls w1 = calls w @ [c]"
  using assms by (auto simp: invoke_def split: prod.splits)

lemma query_Inr:
  assumes "query r w = (Inr a, w1)"
  shows "w1 = w \<and> r w = Inr a"
  using assms by (auto simp: query_def)

lemma tunnels_nonempty:
  "concat (map (\<lambda>(i, v). tunnelOf i v) (enumerate n vals)) \<noteq> [] \<longleftrightarrow> (\<exists>v \<in> set vals. isTunnel v)"
proof (induction vals arbitrary: n)
  case Nil
  then show ?case by simp
next
  case (Cons val vals)
  from Cons [of "Suc n"] show ?case
    by (cases "Connection (Peer val)") (simp_all add: tunnelOf_def isTunnel_def)
qed

lemma gentxLoop_calls:
  "gentxLoop env dir i vals w = (Inr u, w') \<Longrightarrow>
     calls w' = calls w @
       map (\<lambda>(j, v). Call_WriteFile (filepath_Join dir (''gentx'' @ Itoa j @ ''.json'')) (Gentx v))
         (enumerate i vals)"
proof (induction vals arbitrary: i w)
  case Nil
  then show ?case by (simp add: succeed_def)
next
  case (Cons val vals)
  let ?p = "filepath_Join dir (''gentx'' @ Itoa i @ ''.json'')"
  from Cons.prems obtain a w1
    where first: "invoke (Call_WriteFile ?p (Gentx val)) (ioutil_WriteFile env ?p (Gentx val)) w
        = (Inr a, w1)"
      and rest: "gentxLoop env dir (Suc i) vals w1 = (Inr u, w')"
    by (auto simp: Let_def elim: andThen_Inr)
  from invoke_Inr [OF first] Cons.IH [OF rest] show ?case
    by simp
qed

lemma updateConfig_success:
  assumes run: "updateConfigFromGenesisValidators env vals w = (Inr u, w')" and ne: "vals \<noteq> []"
  shows "\<exists>configPath loaded rest.
      chain_ConfigTOMLPath env w = Inr configPath \<and>
      toml_LoadFile env configPath w = Inr loaded \<and>
      calls w' = calls w @ [Call_OpenFile configPath,
         Call_WriteTo configPath (writtenConfig loaded vals)] @ rest \<and>
      list_all (\<lambda>k. \<exists>ts p. k = Call_SetSPNConfig ts p) rest"
proof -
  obtain ps ts where loop: "peerLoop (VerifyPeerFormat env) 0 vals [] [] = Inr (ps, ts)"
    using run by (auto simp: updateConfigFromGenesisValidators_def fail_def split: sum.splits)
  from peerLoop_acc [OF loop]
  have ps: "ps = map (\<lambda>(j, v). peerAddress j v) (enumerate 0 vals)"
    and ts: "ts = concat (map (\<lambda>(j, v). tunnelOf j v) (enumerate 0 vals))"
    by simp_all
  from ps ne have len: "length ps > 0"
    by simp
  from ts have tun: "(\<exists>v \<in> set vals. isTunnel v) \<longleftrightarrow> ts \<noteq> []"
    using tunnels_nonempty [of 0 vals] by simp
  show ?thesis
  proof (cases "ts = []")
    case True
    with tun have none: "\<not> (\<exists>v \<in> set vals. isTunnel v)"
      by simp
    from run loop len True show ?thesis
      unfolding updateConfigFromGenesisValidators_def writtenConfig_def
      by (auto simp: none ps [symmetric] Let_def succeed_def
          dest!: query_Inr invoke_Inr elim!: andThen_Inr split: if_splits)
  next
    case False
    with tun have some: "\<exists>v \<in> set vals. isTunnel v"
      by simp
    from run loop len False show ?thesis
      unfolding updateConfigFromGenesisValidators_def writtenConfig_def
      by (auto simp: some ps [symmetric] Let_def succeed_def
          dest!: query_Inr invoke_Inr elim!: andThen_Inr split: if_splits)
  qed
qed


lemma writtenConfig_peers:
  "writtenConfig loaded vals ''p2p.persistent_peers'' =
     Some (TomlString (strings_Join (map (\<lambda>(i, v). peerAddress i v) (enumerate 0 vals)) '',''))"
  by (simp add: writtenConfig_def Let_def)

lemma writtenConfig_duplicate_ip:
  "writtenConfig loaded vals ''p2p.allow_duplicate_ip'' = Some (TomlBool True) \<longleftrightarrow>
     (\<exists>v \<in> set vals. isTunnel v) \<or> loaded ''p2p.allow_duplicate_ip'' = Some (TomlBool True)"
  by (simp add: writtenConfig_def Let_def)

lemma gentx_names_distinct:
  "distinct (map (\<lambda>(i, v). filepath_Join dir (''gentx'' @ Itoa i @ ''.json'')) (enumerate n vals))"
proof -
  have "inj_on (\<lambda>i. filepath_Join dir (''gentx'' @ Itoa i @ ''.json'')) A" for A
    by (rule inj_onI) (auto simp: filepath_Join_def dest: Itoa_inj)
  then have "distinct (map (\<lambda>i. filepath_Join dir (''gentx'' @ Itoa i @ ''.json''))
      [n..<n + length vals])"
    by (subst distinct_map) simp
  moreover have "map (\<lambda>(i, v). filepath_Join dir (''gentx'' @ Itoa i @ ''.json''))
      (enumerate n vals) =
    map (\<lambda>i. filepath_Join dir (''gentx'' @ Itoa i @ ''.json'')) (map fst (enumerate n vals))"
    by (simp only: map_map comp_def split_def)
  ultimately show ?thesis
    by (simp only: map_fst_enumerate)
qed

lemma applyGenesisValidators_success:
  assumes run: "applyGenesisValidators env vals w = (Inr u, w')" and ne: "vals \<noteq> []"
  shows "\<exists>gentxDir configPath loaded rest.
      chain_GentxsPath env w = Inr gentxDir \<and>
      calls w' = calls w @ [Call_RemoveAll gentxDir, Call_MkdirAll gentxDir] @
        map (\<lambda>(i, v). Call_WriteFile (filepath_Join gentxDir (''gentx'' @ Itoa i @ ''.json''))
               (Gentx v)) (enumerate 0 vals) @
        [Call_CollectGentxs, Call_OpenFile configPath,
         Call_WriteTo configPath (writtenConfig loaded vals)] @ rest \<and>
      list_all (\<lambda>k. \<exists>ts p. k = Call_SetSPNConfig ts p) rest"
proof -
  from run ne obtain gentxDir w1 w2 w3 w4 w5 u1 u2 u3 u4 u5
    where dir: "chain_GentxsPath env w = Inr gentxDir"
      and s1: "invoke (Call_RemoveAll gentxDir) (os_RemoveAll env gentxDir) w = (Inr u1, w1)"
      and s2: "invoke (Call_MkdirAll gentxDir) (os_MkdirAll env gentxDir) w1 = (Inr u2, w2)"
      and s3: "gentxLoop env gentxDir 0 vals w2 = (Inr u3, w3)"
      and s4: "invoke Call_CollectGentxs (cmd_CollectGentxs env) w3 = (Inr u5, w5)"
      and s5: "updateConfigFromGenesisValidators env vals w5 = (Inr u, w')"
    unfolding applyGenesisValidators_def
    by (auto elim!: andThen_Inr dest!: query_Inr)
  from updateConfig_success [OF s5 ne] obtain configPath loaded rest
    where "calls w' = calls w5 @ [Call_OpenFile configPath,
         Call_WriteTo configPath (writtenConfig loaded vals)] @ rest"
      and "list_all (\<lambda>k. \<exists>ts p. k = Call_SetSPNConfig ts p) rest"
    by blast
  with dir invoke_Inr [OF s1] invoke_Inr [OF s2] gentxLoop_calls [OF s3] invoke_Inr [OF s4]
  show ?thesis
    by auto
qed

text \<open>
  C5 (as amended).  A successful \<^verbatim>\<open>applyGenesisValidators\<close> on a non-empty validator list
  issues, in this order: the reset of the gentx directory, one \<^verbatim>\<open>WriteFile\<close> per
  validator in input order, the file written for validator \<open>i\<close> being \<open>gentx<i>.json\<close> in
  the gentx directory and holding the gentx of validator \<open>i\<close> (the names are pairwise
  distinct, so no write replaces another), then \<^verbatim>\<open>collect-gentxs\<close> and the write of
  \<^verbatim>\<open>config.toml\<close>, whose \<open>p2p.persistent_peers\<close> is the comma-separated list of the
  validators' peer strings in the order of the validator list.
\<close>

theorem gentx_and_peer_order:
  assumes "applyGenesisValidators env vals w = (Inr u, w')" and "vals \<noteq> []"
  shows "\<exists>gentxDir configPath configToml rest.
      chain_GentxsPath env w = Inr gentxDir \<and>
      calls w' = calls w @ [Call_RemoveAll gentxDir, Call_MkdirAll gentxDir] @
        map (\<lambda>(i, val). Call_WriteFile (filepath_Join gentxDir (''gentx'' @ Itoa i @ ''.json''))
               (Gentx val)) (enumerate 0 vals) @
        [Call_CollectGentxs, Call_OpenFile configPath, Call_WriteTo configPath configToml] @ rest \<and>
      distinct (map (\<lambda>(i, val). filepath_Join gentxDir (''gentx'' @ Itoa i @ ''.json''))
        (enumerate 0 vals)) \<and>
      configToml ''p2p.persistent_peers'' =
        Some (TomlString
          (strings_Join (map (\<lambda>(i, val). peerAddress i val) (enumerate 0 vals)) '',''))"
proof -
  from applyGenesisValidators_success [OF assms] obtain gentxDir configPath loaded rest
    where "chain_GentxsPath env w = Inr gentxDir"
      and "calls w' = calls w @ [Call_RemoveAll gentxDir, Call_MkdirAll gentxDir] @
        map (\<lambda>(i, v). Call_WriteFile (filepath_Join gentxDir (''gentx'' @ Itoa i @ ''.json''))
               (Gentx v)) (enumerate 0 vals) @
        [Call_CollectGentxs, Call_OpenFile configPath,
         Call_WriteTo configPath (writtenConfig loaded vals)] @ rest"
    by blast
  with gentx_names_distinct [of gentxDir 0 vals] writtenConfig_peers [of loaded vals]
  show ?thesis
    by blast
qed

theorem gentx_and_peer_order_witness:
  "fst (applyGenesisValidators demo_env [direct_validator, tunnel_validator] demo_world) = Inr () \<and>
   (\<exists>gentxDir configPath configToml rest.
      chain_GentxsPath demo_env demo_world = Inr gentxDir \<and>
      calls (snd (applyGenesisValidators demo_env [direct_validator, tunnel_validator] demo_world)) =
        calls demo_world @ [Call_RemoveAll gentxDir, Call_MkdirAll gentxDir] @
        map (\<lambda>(i, val). Call_WriteFile (filepath_Join gentxDir (''gentx'' @ Itoa i @ ''.json''))
               (Gentx val)) (enumerate 0 [direct_validator, tunnel_validator]) @
        [Call_CollectGentxs, Call_OpenFile configPath, Call_WriteTo configPath configToml] @ rest \<and>
      distinct (map (\<lambda>(i, val). filepath_Join gentxDir (''gentx'' @ Itoa i @ ''.json''))
        (enumerate 0 [direct_validator, tunnel_validator])) \<and>
      configToml ''p2p.persistent_peers'' =
        Some (TomlString
          (strings_Join (map (\<lambda>(i, val). peerAddress i val)
             (enumerate 0 [direct_validator, tunnel_validator])) '','')))"
proof -
  let ?vals = "[direct_validator, tunnel_validator]"
  have ok: "fst (applyGenesisValidators demo_env ?vals demo_world) = Inr ()"
    by (simp add: model_defs run_simps demo_simps Itoa_eval)
  then have run: "applyGenesisValidators demo_env ?vals demo_world =
      (Inr (), snd (applyGenesisValidators demo_env ?vals demo_world))"
    by (simp add: prod_eq_iff)
  have ne: "?vals \<noteq> []"
    by simp
  from gentx_and_peer_order [OF run ne] ok show ?thesis
    by (intro conjI)
qed

text \<open>
  C5 as stated fails on the file names: after a successful run on a direct and a tunnel
  validator, the gentx directory holds \<open>gentx0.json\<close> and \<open>gentx1.json\<close>; no file named
  \<open>gentx0\<close> was written, and none holds the gentx of contribution 0 under that name.
\<close>

theorem gentx_file_name_counterexample:
  "fst (applyGenesisValidators demo_env [direct_validator, tunnel_validator] demo_world) = Inr () \<and>
   gentx_files (ext (snd (applyGenesisValidators demo_env [direct_validator, tunnel_validator]
       demo_world))) =
     [(''/home/chain/config/gentx/gentx0.json'', ''tx-direct''),
      (''/home/chain/config/gentx/gentx1.json'', ''tx-tunnel'')] \<and>
   filepath_Join ''/home/chain/config/gentx'' ''gentx0'' \<notin>
     fst ` set (gentx_files (ext (snd (applyGenesisValidators demo_env
       [direct_validator, tunnel_validator] demo_world)))) \<and>
   Call_WriteFile (filepath_Join ''/home/chain/config/gentx'' ''gentx0'') (Gentx direct_validator) \<notin>
     set (calls (snd (applyGenesisValidators demo_env [direct_validator, tunnel_validator]
       demo_world)))"
  by (simp add: model_defs run_simps demo_simps Itoa_eval)

text \<open>
  C6 (as amended).  After a successful \<^verbatim>\<open>updateConfigFromGenesisValidators\<close> on a
  non-empty validator list, \<open>p2p.allow_duplicate_ip\<close> is true in the configuration
  written if and only if at least one validator uses the tunnel topology or the flag
  was already true in the configuration loaded: the function sets the flag when there
  is a tunnel and never clears it.
\<close>

theorem duplicate_ip_after_update:
  assumes "updateConfigFromGenesisValidators env vals w = (Inr u, w')" and "vals \<noteq> []"
  shows "\<exists>configPath loaded configToml rest.
      chain_ConfigTOMLPath env w = Inr configPath \<and>
      toml_LoadFile env configPath w = Inr loaded \<and>
      calls w' = calls w @ [Call_OpenFile configPath, Call_WriteTo configPath configToml] @ rest \<and>
      (configToml ''p2p.allow_duplicate_ip'' = Some (TomlBool True) \<longleftrightarrow>
         (\<exists>v \<in> set vals. isTunnel v) \<or> loaded ''p2p.allow_duplicate_ip'' = Some (TomlBool True))"
proof -
  from updateConfig_success [OF assms] obtain configPath loaded rest
    where "chain_ConfigTOMLPath env w = Inr configPath"
      and "toml_LoadFile env configPath w = Inr loaded"
      and "calls w' = calls w @ [Call_OpenFile configPath,
         Call_WriteTo configPath (writtenConfig loaded vals)] @ rest"
    by blast
  with writtenConfig_duplicate_ip [of loaded vals] show ?thesis
    by blast
qed

theorem duplicate_ip_after_update_witness:
  "fst (updateConfigFromGenesisValidators demo_env [direct_validator, tunnel_validator]
      demo_world) = Inr () \<and>
   (\<exists>configPath loaded configToml rest.
      chain_ConfigTOMLPath demo_env demo_world = Inr configPath \<and>
      toml_LoadFile demo_env configPath demo_world = Inr loaded \<and>
      calls (snd (updateConfigFromGenesisValidators demo_env [direct_validator, tunnel_validator]
          demo_world)) =
        calls demo_world @ [Call_OpenFile configPath, Call_WriteTo configPath configToml] @ rest \<and>
      (configToml ''p2p.allow_duplicate_ip'' = Some (TomlBool True) \<longleftrightarrow>
         (\<exists>v \<in> set [direct_validator, tunnel_validator]. isTunnel v) \<or>
         loaded ''p2p.allow_duplicate_ip'' = Some (TomlBool True)))"
proof -
  let ?vals = "[direct_validator, tunnel_validator]"
  have ok: "fst (updateConfigFromGenesisValidators demo_env ?vals demo_world) = Inr ()"
    by (simp add: model_defs run_simps demo_simps Itoa_eval)
  then have run: "updateConfigFromGenesisValidators demo_env ?vals demo_world =
      (Inr (), snd (updateConfigFromGenesisValidators demo_env ?vals demo_world))"
    by (simp add: prod_eq_iff)
  have ne: "?vals \<noteq> []"
    by simp
  from duplicate_ip_after_update [OF run ne] ok show ?thesis
    by (intro conjI)
qed

text \<open>
  C6 as stated fails when the flag is already set: with one direct validator and a
  \<^verbatim>\<open>config.toml\<close> that has \<open>p2p.allow_duplicate_ip\<close> true, the update succeeds, no
  validator is a tunnel, and the flag is still true in the file written.
\<close>

theorem duplicate_ip_counterexample:
  "fst (updateConfigFromGenesisValidators demo_env [direct_validator]
      (demo_world\<lparr>ext := demo_disk\<lparr>config_toml :=
         [''p2p.allow_duplicate_ip'' \<mapsto> TomlBool True]\<rparr>\<rparr>)) = Inr () \<and>
   \<not> isTunnel direct_validator \<and>
   config_toml (ext (snd (updateConfigFromGenesisValidators demo_env [direct_validator]
      (demo_world\<lparr>ext := demo_disk\<lparr>config_toml :=
         [''p2p.allow_duplicate_ip'' \<mapsto> TomlBool True]\<rparr>\<rparr>)))) ''p2p.allow_duplicate_ip'' =
     Some (TomlBool True)"
  by (simp add: model_defs run_simps demo_simps isTunnel_def)

subsection \<open>\<^verbatim>\<open>Build\<close> and the binary cache\<close>


lemma Build_at_lookup:
  "Build env c w = buildAndCache env c w \<or> snd (Build env c w) = w"
  by (auto simp: Build_def andThen_def query_def succeed_def split: sum.splits)



text \<open>
  C7 (as amended).  In the lookup of \<^verbatim>\<open>Build\<close> (launch identity not zero), a checksum
  error that is not of the class \<^verbatim>\<open>exec.ErrNotFound\<close> is returned at once, nothing else
  being done; an error of that class is passed over and, the cache being readable and
  holding no record with an empty checksum for the pair, counts as a miss: \<^verbatim>\<open>Build\<close>
  goes on to build the binary and to cache it.  The checksum after the build is outside
  this tolerance.
\<close>

theorem lookup_checksum_errors:
  assumes "launchID c \<noteq> 0"
    and "chain_Binary env w = Inr binaryName"
    and "BinaryChecksum env binaryName w = Inl err"
  shows "(\<not> is_ErrNotFound err \<longrightarrow> Build env c w = (Inl err, w)) \<and>
         (is_ErrNotFound err \<and> cache_load_error env w = None \<and>
          cache w (launchID c, hash c) \<noteq> Some '''' \<longrightarrow>
            Build env c w = buildAndCache env c w)"
  using assms
  by (auto simp: Build_def andThen_def query_def succeed_def lookupChecksum_def
      CheckBinaryCacheForLaunchID_def)

theorem lookup_checksum_errors_witness:
  "launchID demo_chain \<noteq> 0 \<and>
   chain_Binary demo_env missing_tool_world = Inr ''chaind'' \<and>
   BinaryChecksum demo_env ''chaind'' missing_tool_world = Inl ErrNotFound \<and>
   Build demo_env demo_chain missing_tool_world = buildAndCache demo_env demo_chain missing_tool_world \<and>
   BinaryChecksum demo_env ''chaind'' unreadable_binary_world = Inl (Failure ''permission denied'') \<and>
   Build demo_env demo_chain unreadable_binary_world =
     (Inl (Failure ''permission denied''), unreadable_binary_world)"
proof -
  have nz: "launchID demo_chain \<noteq> 0"
    and b1: "chain_Binary demo_env missing_tool_world = Inr ''chaind''"
    and s1: "BinaryChecksum demo_env ''chaind'' missing_tool_world = Inl ErrNotFound"
    and l1: "cache_load_error demo_env missing_tool_world = None"
    and c1: "cache missing_tool_world (launchID demo_chain, hash demo_chain) \<noteq> Some ''''"
    and b2: "chain_Binary demo_env unreadable_binary_world = Inr ''chaind''"
    and s2: "BinaryChecksum demo_env ''chaind'' unreadable_binary_world =
        Inl (Failure ''permission denied'')"
    by (simp_all add: demo_simps world_simps)
  from lookup_checksum_errors [OF nz b1 s1] l1 c1
  have "Build demo_env demo_chain missing_tool_world =
      buildAndCache demo_env demo_chain missing_tool_world"
    by simp
  moreover from lookup_checksum_errors [OF nz b2 s2]
  have "Build demo_env demo_chain unreadable_binary_world =
      (Inl (Failure ''permission denied''), unreadable_binary_world)"
    by simp
  ultimately show ?thesis
    using nz b1 s1 s2 by (intro conjI)
qed

text \<open>
  C7 as stated fails after the build: when the checksum tool does not find the binary,
  the lookup passes the error over, the build succeeds, and the checksum after the
  build returns the same error of the class \<^verbatim>\<open>exec.ErrNotFound\<close>, which \<^verbatim>\<open>Build\<close> returns.
\<close>

theorem missing_tool_fatal_counterexample:
  "is_ErrNotFound ErrNotFound \<and>
   BinaryChecksum demo_env ''chaind'' missing_tool_world = Inl ErrNotFound \<and>
   fst (Build demo_env demo_chain missing_tool_world) = Inl ErrNotFound"
  by (simp add: Build_def buildAndCache_def lookupChecksum_def CheckBinaryCacheForLaunchID_def
      CacheBinaryForLaunchID_def run_simps demo_simps world_simps)

text \<open>
  C10.  \<^verbatim>\<open>Build\<close> either returns at the lookup, leaving the world as it was, or is the
  block that builds and caches; with launch identity zero it is always that block.
  When the adapter's build succeeds there, the checksum is computed in the world that
  the build left: an error of any class, \<^verbatim>\<open>exec.ErrNotFound\<close> included, is returned;
  otherwise the record for the launch identity (zero or not), the checksum and the
  source hash is stored, and \<^verbatim>\<open>Build\<close> returns the binary's name unless saving the
  record fails.
\<close>

theorem store_after_build:
  assumes "chain_Build env w = (Inr binaryName, built)"
  shows "(launchID c = 0 \<longrightarrow> Build env c w = buildAndCache env c w) \<and>
         (Build env c w = buildAndCache env c w \<or> snd (Build env c w) = w) \<and>
         (let w1 = built\<lparr>calls := calls w @ [Call_chain_Build], events := events w\<rparr> in
          case BinaryChecksum env binaryName w1 of
            Inl err \<Rightarrow> buildAndCache env c w = (Inl err, w1)
          | Inr digest \<Rightarrow>
              (let w2 = w1\<lparr>calls := calls w1 @
                     [Call_CacheBinaryForLaunchID (launchID c) digest (hash c)]\<rparr> in
               case cache_save_error env w1 of
                 Some err \<Rightarrow> buildAndCache env c w = (Inl err, w2)
               | None \<Rightarrow> buildAndCache env c w =
                   (Inr binaryName, w2\<lparr>cache := (cache w1)((launchID c, hash c) \<mapsto> digest)\<rparr>)))"
proof (intro conjI)
  show "launchID c = 0 \<longrightarrow> Build env c w = buildAndCache env c w"
    by (simp add: Build_def)
  show "Build env c w = buildAndCache env c w \<or> snd (Build env c w) = w"
    by (rule Build_at_lookup)
  from assms show "let w1 = built\<lparr>calls := calls w @ [Call_chain_Build], events := events w\<rparr> in
          case BinaryChecksum env binaryName w1 of
            Inl err \<Rightarrow> buildAndCache env c w = (Inl err, w1)
          | Inr digest \<Rightarrow>
              (let w2 = w1\<lparr>calls := calls w1 @
                     [Call_CacheBinaryForLaunchID (launchID c) digest (hash c)]\<rparr> in
               case cache_save_error env w1 of
                 Some err \<Rightarrow> buildAndCache env c w = (Inl err, w2)
               | None \<Rightarrow> buildAndCache env c w =
                   (Inr binaryName, w2\<lparr>cache := (cache w1)((launchID c, hash c) \<mapsto> digest)\<rparr>))"
    by (simp add: buildAndCache_def CacheBinaryForLaunchID_def run_simps
        split: sum.splits option.splits)
qed

theorem store_after_build_witness:
  "chain_Build demo_env demo_world = (Inr ''chaind'', demo_world) \<and>
   Build demo_env (demo_chain\<lparr>launchID := 0\<rparr>) demo_world =
     (Inr ''chaind'', demo_world\<lparr>
        calls := [Call_chain_Build, Call_CacheBinaryForLaunchID 0 ''5f3a'' ''0a1b2c''],
        cache := [(0, ''0a1b2c'') \<mapsto> ''5f3a'']\<rparr>) \<and>
   fst (buildAndCache demo_env demo_chain missing_tool_world) = Inl ErrNotFound"
proof -
  have b: "chain_Build demo_env demo_world = (Inr ''chaind'', demo_world)"
    and b': "chain_Build demo_env missing_tool_world = (Inr ''chaind'', missing_tool_world)"
    by (simp_all add: demo_simps)
  from store_after_build [OF b, of "demo_chain\<lparr>launchID := 0\<rparr>"]
  have "Build demo_env (demo_chain\<lparr>launchID := 0\<rparr>) demo_world =
     (Inr ''chaind'', demo_world\<lparr>
        calls := [Call_chain_Build, Call_CacheBinaryForLaunchID 0 ''5f3a'' ''0a1b2c''],
        cache := [(0, ''0a1b2c'') \<mapsto> ''5f3a'']\<rparr>)"
    by (simp add: demo_simps Let_def)
  moreover from store_after_build [OF b', of demo_chain]
  have "fst (buildAndCache demo_env demo_chain missing_tool_world) = Inl ErrNotFound"
    by (simp add: demo_simps world_simps Let_def)
  ultimately show ?thesis
    using b by (intro conjI)
qed

subsection \<open>\<^verbatim>\<open>Prepare\<close>\<close>

lemma issues_mono: "issues P m \<Longrightarrow> (\<And>k. P k \<Longrightarrow> Q k) \<Longrightarrow> issues Q m"
  unfolding issues_def by (metis (mono_tags, lifting) list_all_iff)

lemma issues_updateConfig:
  assumes "\<And>k. writesPeerConfig k \<Longrightarrow> P k"
  shows "issues P (updateConfigFromGenesisValidators env vals)"
  unfolding updateConfigFromGenesisValidators_def
  by (auto simp: Let_def assms split: sum.splits intro!: issues_invoke)

text \<open>The calls that \<^verbatim>\<open>buildGenesis\<close> can issue.\<close>

lemma issues_buildGenesis:
  assumes "\<And>k. k \<notin> {Call_Init, Call_chain_Build, Call_initGenesis, Call_ValidateGenesis,
      Call_UnsafeReset} \<Longrightarrow> P k"
  shows "issues P (buildGenesis env c gi)"
  unfolding buildGenesis_def applyGenesisAccounts_def applyVestingAccounts_def
    applyGenesisValidators_def
  by (intro issues_andThen issues_wrapping issues_send issues_query issues_invoke issues_if
      issues_succeed issues_accountLoop issues_vestingLoop issues_gentxLoop issues_updateConfig
      assms) auto

lemma issues_prepareGenesis:
  assumes "\<And>k. k \<notin> {Call_Init, Call_chain_Build, Call_initGenesis} \<Longrightarrow> P k"
  shows "issues P (prepareGenesis env c gi binaryName chainHome)"
  unfolding prepareGenesis_def
  by (intro issues_andThen issues_send issues_query issues_invoke issues_buildGenesis assms) auto

lemma invoke_then:
  assumes "\<And>a. issues P (f a)"
  shows "\<exists>rest. calls (snd (andThen (invoke k m) f w)) = calls w @ k # rest \<and> list_all P rest"
proof -
  obtain r w1 where first: "invoke k m w = (r, w1)"
    by (cases "invoke k m w")
  then have w1: "calls w1 = calls w @ [k]"
    by (auto simp: invoke_def split: prod.splits)
  show ?thesis
  proof (cases r)
    case (Inl e)
    with first w1 show ?thesis
      by (simp add: andThen_def)
  next
    case (Inr a)
    from issuesD [OF assms, of a w1] obtain new
      where "calls (snd (f a w1)) = calls w1 @ new" "list_all P new"
      by blast
    with Inr first w1 show ?thesis
      by (simp add: andThen_def)
  qed
qed

lemma send_then: "andThen (send ev) f w = f () (w\<lparr>events := events w @ [ev]\<rparr>)"
  by (simp add: andThen_def send_def)

lemma Prepare_home_present:
  assumes "chain_Home env w = Inr chainHome" and "os_Stat env chainHome w = None"
  shows "\<exists>rest. calls (snd (Prepare env c gi w)) = calls w @ Call_chain_Build # rest \<and>
           list_all (\<lambda>k. k \<noteq> Call_Init) rest"
proof -
  let ?w = "w\<lparr>events := events w @ [Ongoing ''Building the blockchain'']\<rparr>"
  have "\<exists>rest. calls (snd (andThen (invoke Call_chain_Build (chain_Build env))
      (\<lambda>binaryName.
          andThen (send (Done ''Blockchain build complete'')) (\<lambda>_.
          andThen (send (Ongoing ''Initializing the genesis'')) (\<lambda>_.
          andThen (invoke Call_initGenesis (initGenesis env)) (\<lambda>_.
          andThen (send (Done ''Genesis initialized'')) (\<lambda>_.
          prepareGenesis env c gi binaryName chainHome))))) ?w)) =
        calls ?w @ Call_chain_Build # rest \<and> list_all (\<lambda>k. k \<noteq> Call_Init) rest"
    by (rule invoke_then)
      (intro issues_andThen issues_send issues_invoke issues_prepareGenesis, auto)
  with assms show ?thesis
    by (simp add: Prepare_def andThen_def [of "query _"] query_def send_then)
qed

lemma Prepare_home_absent:
  assumes "chain_Home env w = Inr chainHome" and "os_Stat env chainHome w = Some err"
    and "os_IsNotExist err"
  shows "\<exists>rest. calls (snd (Prepare env c gi w)) = calls w @ Call_Init # rest \<and>
           list_all (\<lambda>k. k \<noteq> Call_chain_Build \<and> k \<noteq> Call_initGenesis) rest"
proof -
  have "\<exists>rest. calls (snd (andThen (invoke Call_Init (Init env))
      (\<lambda>_. andThen (query (chain_Binary env)) (\<lambda>binaryName.
            prepareGenesis env c gi binaryName chainHome)) w)) =
        calls w @ Call_Init # rest \<and>
        list_all (\<lambda>k. k \<noteq> Call_chain_Build \<and> k \<noteq> Call_initGenesis) rest"
    by (rule invoke_then)
      (intro issues_andThen issues_query issues_prepareGenesis, auto)
  with assms show ?thesis
    by (simp add: Prepare_def andThen_def [of "query _"] query_def)
qed

lemma send_Inr: "send ev w = (Inr a, w1) \<Longrightarrow> calls w1 = calls w"
  by (auto simp: send_def)

lemma prepareGenesis_success:
  assumes "prepareGenesis env c gi binaryName chainHome w1 = (Inr u, w')"
  shows "\<exists>w2. buildGenesis env c gi w1 = (Inr (), w2) \<and>
           calls w' = calls w2 @ [Call_ValidateGenesis, Call_UnsafeReset]"
  using assms unfolding prepareGenesis_def
  by (auto elim!: andThen_Inr dest!: query_Inr invoke_Inr send_Inr)

lemma Prepare_success:
  assumes "Prepare env c gi w = (Inr u, w')"
  shows "\<exists>w1 w2. (calls w1 = calls w @ [Call_Init] \<or>
                  calls w1 = calls w @ [Call_chain_Build, Call_initGenesis]) \<and>
           buildGenesis env c gi w1 = (Inr (), w2) \<and>
           calls w' = calls w2 @ [Call_ValidateGenesis, Call_UnsafeReset]"
proof -
  from assms obtain chainHome where home: "chain_Home env w = Inr chainHome"
    unfolding Prepare_def by (auto elim!: andThen_Inr dest!: query_Inr)
  show ?thesis
  proof (cases "os_Stat env chainHome w")
    case None
    with assms home obtain binaryName w1
      where "calls w1 = calls w @ [Call_chain_Build, Call_initGenesis]"
        and "prepareGenesis env c gi binaryName chainHome w1 = (Inr u, w')"
      unfolding Prepare_def
      by (auto simp: andThen_def [of "query _"] query_def
          elim!: andThen_Inr dest!: invoke_Inr send_Inr)
    with prepareGenesis_success [of env c gi binaryName chainHome w1 u w'] show ?thesis
      by blast
  next
    case (Some err)
    with assms home obtain binaryName w1
      where "calls w1 = calls w @ [Call_Init]"
        and "prepareGenesis env c gi binaryName chainHome w1 = (Inr u, w')"
      unfolding Prepare_def
      by (auto simp: andThen_def [of "query _"] query_def fail_def
          elim!: andThen_Inr dest!: invoke_Inr query_Inr split: if_splits)
    with prepareGenesis_success [of env c gi binaryName chainHome w1 u w'] show ?thesis
      by blast
  qed
qed

lemmas prepare_defs = Prepare_def prepareGenesis_def model_defs

lemma Prepare_succeeds_iff:
  "Prepare env c gi w = (Inr (), w') \<longleftrightarrow>
     (\<exists>chainHome binaryName w1 w2 w3 w4.
        chain_Home env w = Inr chainHome \<and>
        (os_Stat env chainHome w = None \<and>
           (\<exists>built initialized.
              invoke Call_chain_Build (chain_Build env)
                (w\<lparr>events := events w @ [Ongoing ''Building the blockchain'']\<rparr>) =
                (Inr binaryName, built) \<and>
              invoke Call_initGenesis (initGenesis env)
                (built\<lparr>events := events built @
                   [Done ''Blockchain build complete'', Ongoing ''Initializing the genesis'']\<rparr>) =
                (Inr (), initialized) \<and>
              w1 = initialized\<lparr>events := events initialized @ [Done ''Genesis initialized'']\<rparr>) \<or>
         (\<exists>err. os_Stat env chainHome w = Some err \<and> os_IsNotExist err) \<and>
           invoke Call_Init (Init env) w = (Inr (), w1) \<and>
           chain_Binary env w1 = Inr binaryName) \<and>
        buildGenesis env c gi w1 = (Inr (), w2) \<and>
        chain_Commands env w2 = Inr () \<and>
        invoke Call_ValidateGenesis (cmd_ValidateGenesis env) w2 = (Inr (), w3) \<and>
        invoke Call_UnsafeReset (cmd_UnsafeReset env) w3 = (Inr (), w4) \<and>
        w' = w4\<lparr>events := events w4 @
          [Printed (clispinner_OK env @ '' Chain is prepared for launch''),
           Printed ''You can start your node by running the following command:'',
           Printed (binaryName @ '' start --home '' @ chainHome)]\<rparr>)"
  (is "?run \<longleftrightarrow> ?steps")
proof
  assume ?run
  then obtain chainHome where home: "chain_Home env w = Inr chainHome"
    unfolding Prepare_def by (auto elim!: andThen_Inr dest!: query_Inr)
  show ?steps
  proof (cases "os_Stat env chainHome w")
    case None
    with \<open>?run\<close> home show ?thesis
      unfolding Prepare_def prepareGenesis_def
      by (auto simp: andThen_def [of "query _"] andThen_def [of "send _"] query_def send_def
          elim!: andThen_Inr)
  next
    case (Some err)
    with \<open>?run\<close> home show ?thesis
      unfolding Prepare_def prepareGenesis_def
      by (auto simp: andThen_def [of "query _"] andThen_def [of "send _"] query_def send_def
          fail_def elim!: andThen_Inr split: if_splits sum.splits)
  qed
next
  assume ?steps
  then show ?run
    unfolding Prepare_def prepareGenesis_def
    by (auto simp: andThen_def query_def send_def)
qed

text \<open>
  C8.  With the home path known, \<^verbatim>\<open>Prepare\<close> branches on \<^verbatim>\<open>os.Stat\<close> of the home directory
  alone.  When the directory exists, the first call is the adapter's build and
  \<^verbatim>\<open>c.Init\<close>, which creates the validator key, is never called, whatever happens later.
  When it does not exist, the first call is \<^verbatim>\<open>c.Init\<close>, and neither the adapter's build
  nor \<^verbatim>\<open>initGenesis\<close> is called by \<^verbatim>\<open>Prepare\<close>.  Any other error of \<^verbatim>\<open>os.Stat\<close> is
  returned with nothing done.  A successful run, in either branch, continues after the
  branch with a successful \<^verbatim>\<open>buildGenesis\<close>, then the validation of the genesis, then
  the reset of the local state, and these two are its last calls.  And \<^verbatim>\<open>Prepare\<close>
  succeeds exactly when the steps do: the branch taken (the adapter's build and
  \<^verbatim>\<open>initGenesis\<close> where the directory exists, \<^verbatim>\<open>c.Init\<close> and the binary's name where it
  does not), then \<^verbatim>\<open>buildGenesis\<close> in the world that the branch left, the command
  runner, the validation and the reset, each in the world that the step before it
  left; the world returned is the one after the reset, with the three lines printed.
\<close>

theorem prepare_branches:
  assumes "chain_Home env w = Inr chainHome"
  shows "(os_Stat env chainHome w = None \<longrightarrow>
            (\<exists>rest. calls (snd (Prepare env c gi w)) = calls w @ Call_chain_Build # rest \<and>
                    Call_Init \<notin> set rest)) \<and>
         (\<forall>err. os_Stat env chainHome w = Some err \<and> os_IsNotExist err \<longrightarrow>
            (\<exists>rest. calls (snd (Prepare env c gi w)) = calls w @ Call_Init # rest \<and>
                    Call_chain_Build \<notin> set rest \<and> Call_initGenesis \<notin> set rest)) \<and>
         (\<forall>err. os_Stat env chainHome w = Some err \<and> \<not> os_IsNotExist err \<longrightarrow>
            Prepare env c gi w = (Inl err, w)) \<and>
         (\<forall>w'. Prepare env c gi w = (Inr (), w') \<longrightarrow>
            (\<exists>w1 w2. (calls w1 = calls w @ [Call_Init] \<or>
                       calls w1 = calls w @ [Call_chain_Build, Call_initGenesis]) \<and>
                buildGenesis env c gi w1 = (Inr (), w2) \<and>
                calls w' = calls w2 @ [Call_ValidateGenesis, Call_UnsafeReset])) \<and>
         (\<forall>w'. Prepare env c gi w = (Inr (), w') \<longleftrightarrow>
            (\<exists>binaryName w1 w2 w3 w4.
               (os_Stat env chainHome w = None \<and>
                  (\<exists>built initialized.
                     invoke Call_chain_Build (chain_Build env)
                       (w\<lparr>events := events w @ [Ongoing ''Building the blockchain'']\<rparr>) =
                       (Inr binaryName, built) \<and>
                     invoke Call_initGenesis (initGenesis env)
                       (built\<lparr>events := events built @
                          [Done ''Blockchain build complete'',
                           Ongoing ''Initializing the genesis'']\<rparr>) =
                       (Inr (), initialized) \<and>
                     w1 = initialized\<lparr>events := events initialized @
                          [Done ''Genesis initialized'']\<rparr>) \<or>
                (\<exists>err. os_Stat env chainHome w = Some err \<and> os_IsNotExist err) \<and>
                  invoke Call_Init (Init env) w = (Inr (), w1) \<and>
                  chain_Binary env w1 = Inr binaryName) \<and>
               buildGenesis env c gi w1 = (Inr (), w2) \<and>
               chain_Commands env w2 = Inr () \<and>
               invoke Call_ValidateGenesis (cmd_ValidateGenesis env) w2 = (Inr (), w3) \<and>
               invoke Call_UnsafeReset (cmd_UnsafeReset env) w3 = (Inr (), w4) \<and>
               w' = w4\<lparr>events := events w4 @
                 [Printed (clispinner_OK env @ '' Chain is prepared for launch''),
                  Printed ''You can start your node by running the following command:'',
                  Printed (binaryName @ '' start --home '' @ chainHome)]\<rparr>))"
proof (intro conjI allI impI)
  assume "os_Stat env chainHome w = None"
  from Prepare_home_present [OF assms this, of c gi]
  show "\<exists>rest. calls (snd (Prepare env c gi w)) = calls w @ Call_chain_Build # rest \<and>
          Call_Init \<notin> set rest"
    by (auto simp: list_all_iff)
next
  fix err
  assume "os_Stat env chainHome w = Some err \<and> os_IsNotExist err"
  then have "os_Stat env chainHome w = Some err" and "os_IsNotExist err"
    by simp_all
  from Prepare_home_absent [OF assms this, of c gi]
  show "\<exists>rest. calls (snd (Prepare env c gi w)) = calls w @ Call_Init # rest \<and>
          Call_chain_Build \<notin> set rest \<and> Call_initGenesis \<notin> set rest"
    by (auto simp: list_all_iff)
next
  fix err
  assume "os_Stat env chainHome w = Some err \<and> \<not> os_IsNotExist err"
  with assms show "Prepare env c gi w = (Inl err, w)"
    by (simp add: Prepare_def andThen_def query_def fail_def)
next
  fix w'
  assume "Prepare env c gi w = (Inr (), w')"
  from Prepare_success [OF this]
  show "\<exists>w1 w2. (calls w1 = calls w @ [Call_Init] \<or>
                  calls w1 = calls w @ [Call_chain_Build, Call_initGenesis]) \<and>
           buildGenesis env c gi w1 = (Inr (), w2) \<and>
           calls w' = calls w2 @ [Call_ValidateGenesis, Call_UnsafeReset]" .
next
  fix w'
  from assms Prepare_succeeds_iff [of env c gi w w']
  show "Prepare env c gi w = (Inr (), w') \<longleftrightarrow>
            (\<exists>binaryName w1 w2 w3 w4.
               (os_Stat env chainHome w = None \<and>
                  (\<exists>built initialized.
                     invoke Call_chain_Build (chain_Build env)
                       (w\<lparr>events := events w @ [Ongoing ''Building the blockchain'']\<rparr>) =
                       (Inr binaryName, built) \<and>
                     invoke Call_initGenesis (initGenesis env)
                       (built\<lparr>events := events built @
                          [Done ''Blockchain build complete'',
                           Ongoing ''Initializing the genesis'']\<rparr>) =
                       (Inr (), initialized) \<and>
                     w1 = initialized\<lparr>events := events initialized @
                          [Done ''Genesis initialized'']\<rparr>) \<or>
                (\<exists>err. os_Stat env chainHome w = Some err \<and> os_IsNotExist err) \<and>
                  invoke Call_Init (Init env) w = (Inr (), w1) \<and>
                  chain_Binary env w1 = Inr binaryName) \<and>
               buildGenesis env c gi w1 = (Inr (), w2) \<and>
               chain_Commands env w2 = Inr () \<and>
               invoke Call_ValidateGenesis (cmd_ValidateGenesis env) w2 = (Inr (), w3) \<and>
               invoke Call_UnsafeReset (cmd_UnsafeReset env) w3 = (Inr (), w4) \<and>
               w' = w4\<lparr>events := events w4 @
                 [Printed (clispinner_OK env @ '' Chain is prepared for launch''),
                  Printed ''You can start your node by running the following command:'',
                  Printed (binaryName @ '' start --home '' @ chainHome)]\<rparr>)"
    by simp
qed

theorem prepare_branches_witness:
  "chain_Home demo_env demo_world = Inr ''/home/chain'' \<and>
   os_Stat demo_env ''/home/chain'' demo_world = None \<and>
   (\<exists>rest. calls (snd (Prepare demo_env demo_chain demo_genesis demo_world)) =
        calls demo_world @ Call_chain_Build # rest \<and> Call_Init \<notin> set rest) \<and>
   fst (Prepare demo_env demo_chain demo_genesis demo_world) = Inr () \<and>
   calls (snd (Prepare demo_env demo_chain demo_genesis demo_world)) =
     [Call_chain_Build, Call_initGenesis, Call_detectPrefix,
      Call_AddGenesisAccount ''cosmosalice'' ''100stake'',
      Call_AddVestingAccount ''cosmosbob'' ''50stake'' ''20stake'' 1800000000,
      Call_RemoveAll ''/home/chain/config/gentx'', Call_MkdirAll ''/home/chain/config/gentx'',
      Call_WriteFile ''/home/chain/config/gentx/gentx0.json'' ''tx-direct'',
      Call_WriteFile ''/home/chain/config/gentx/gentx1.json'' ''tx-tunnel'',
      Call_CollectGentxs,
      Call_OpenFile ''/home/chain/config/config.toml'',
      Call_WriteTo ''/home/chain/config/config.toml''
        [''p2p.persistent_peers'' \<mapsto> TomlString ''V1@1.2.3.4:26656,V2@127.0.0.1:22001'',
         ''p2p.allow_duplicate_ip'' \<mapsto> TomlBool True],
      Call_SetSPNConfig [\<lparr>Name = ''relayA'', Address = ''http://relay.a'', NodeID = ''V2'',
         LocalPort = ''22001''\<rparr>] ''/home/chain/spn.yml'',
      Call_SetGenesisTime ''/home/chain/config/genesis.json'' 1700000000,
      Call_ValidateGenesis, Call_UnsafeReset] \<and>
   validator_keys (ext demo_world) = 1 \<and>
   validator_keys (ext (snd (Prepare demo_env demo_chain demo_genesis demo_world))) = 1 \<and>
   (\<exists>w1 w2. (calls w1 = calls demo_world @ [Call_Init] \<or>
              calls w1 = calls demo_world @ [Call_chain_Build, Call_initGenesis]) \<and>
       buildGenesis demo_env demo_chain demo_genesis w1 = (Inr (), w2) \<and>
       calls (snd (Prepare demo_env demo_chain demo_genesis demo_world)) =
         calls w2 @ [Call_ValidateGenesis, Call_UnsafeReset]) \<and>
   chain_Home demo_env fresh_world = Inr ''/home/chain'' \<and>
   os_Stat demo_env ''/home/chain'' fresh_world = Some ErrNotExist \<and>
   os_IsNotExist ErrNotExist \<and>
   (\<exists>rest. calls (snd (Prepare demo_env demo_chain demo_genesis fresh_world)) =
        calls fresh_world @ Call_Init # rest \<and>
        Call_chain_Build \<notin> set rest \<and> Call_initGenesis \<notin> set rest) \<and>
   fst (Prepare demo_env demo_chain demo_genesis fresh_world) = Inr () \<and>
   calls (snd (Prepare demo_env demo_chain demo_genesis fresh_world)) =
     [Call_Init, Call_detectPrefix,
      Call_AddGenesisAccount ''cosmosalice'' ''100stake'',
      Call_AddVestingAccount ''cosmosbob'' ''50stake'' ''20stake'' 1800000000,
      Call_RemoveAll ''/home/chain/config/gentx'', Call_MkdirAll ''/home/chain/config/gentx'',
      Call_WriteFile ''/home/chain/config/gentx/gentx0.json'' ''tx-direct'',
      Call_WriteFile ''/home/chain/config/gentx/gentx1.json'' ''tx-tunnel'',
      Call_CollectGentxs,
      Call_OpenFile ''/home/chain/config/config.toml'',
      Call_WriteTo ''/home/chain/config/config.toml''
        [''p2p.persistent_peers'' \<mapsto> TomlString ''V1@1.2.3.4:26656,V2@127.0.0.1:22001'',
         ''p2p.allow_duplicate_ip'' \<mapsto> TomlBool True],
      Call_SetSPNConfig [\<lparr>Name = ''relayA'', Address = ''http://relay.a'', NodeID = ''V2'',
         LocalPort = ''22001''\<rparr>] ''/home/chain/spn.yml'',
      Call_SetGenesisTime ''/home/chain/config/genesis.json'' 1700000000,
      Call_ValidateGenesis, Call_UnsafeReset] \<and>
   validator_keys (ext fresh_world) = 0 \<and>
   validator_keys (ext (snd (Prepare demo_env demo_chain demo_genesis fresh_world))) = 1"
proof -
  let ?present = "Prepare demo_env demo_chain demo_genesis demo_world"
  let ?absent = "Prepare demo_env demo_chain demo_genesis fresh_world"
  have h1: "chain_Home demo_env demo_world = Inr ''/home/chain''"
    and s1: "os_Stat demo_env ''/home/chain'' demo_world = None"
    and h2: "chain_Home demo_env fresh_world = Inr ''/home/chain''"
    and s2: "os_Stat demo_env ''/home/chain'' fresh_world = Some ErrNotExist"
    and ne: "os_IsNotExist ErrNotExist"
    and k1: "validator_keys (ext demo_world) = 1"
    and k2: "validator_keys (ext fresh_world) = 0"
    by (simp_all add: demo_simps fresh_world_def os_IsNotExist_def)
  have ok1: "fst ?present = Inr ()"
    and keys1: "validator_keys (ext (snd ?present)) = 1"
    by (simp_all add: prepare_defs run_simps demo_simps demo_genesis_def Itoa_eval)
  have calls1: "calls (snd ?present) =
     [Call_chain_Build, Call_initGenesis, Call_detectPrefix,
      Call_AddGenesisAccount ''cosmosalice'' ''100stake'',
      Call_AddVestingAccount ''cosmosbob'' ''50stake'' ''20stake'' 1800000000,
      Call_RemoveAll ''/home/chain/config/gentx'', Call_MkdirAll ''/home/chain/config/gentx'',
      Call_WriteFile ''/home/chain/config/gentx/gentx0.json'' ''tx-direct'',
      Call_WriteFile ''/home/chain/config/gentx/gentx1.json'' ''tx-tunnel'',
      Call_CollectGentxs,
      Call_OpenFile ''/home/chain/config/config.toml'',
      Call_WriteTo ''/home/chain/config/config.toml''
        [''p2p.persistent_peers'' \<mapsto> TomlString ''V1@1.2.3.4:26656,V2@127.0.0.1:22001'',
         ''p2p.allow_duplicate_ip'' \<mapsto> TomlBool True],
      Call_SetSPNConfig [\<lparr>Name = ''relayA'', Address = ''http://relay.a'', NodeID = ''V2'',
         LocalPort = ''22001''\<rparr>] ''/home/chain/spn.yml'',
      Call_SetGenesisTime ''/home/chain/config/genesis.json'' 1700000000,
      Call_ValidateGenesis, Call_UnsafeReset]"
    by (simp add: prepare_defs run_simps demo_simps demo_genesis_def Itoa_eval)
  have ok2: "fst ?absent = Inr ()"
    and keys2: "validator_keys (ext (snd ?absent)) = 1"
    by (simp_all add: prepare_defs run_simps demo_simps demo_genesis_def fresh_world_def
        os_IsNotExist_def Itoa_eval)
  have calls2: "calls (snd ?absent) =
     [Call_Init, Call_detectPrefix,
      Call_AddGenesisAccount ''cosmosalice'' ''100stake'',
      Call_AddVestingAccount ''cosmosbob'' ''50stake'' ''20stake'' 1800000000,
      Call_RemoveAll ''/home/chain/config/gentx'', Call_MkdirAll ''/home/chain/config/gentx'',
      Call_WriteFile ''/home/chain/config/gentx/gentx0.json'' ''tx-direct'',
      Call_WriteFile ''/home/chain/config/gentx/gentx1.json'' ''tx-tunnel'',
      Call_CollectGentxs,
      Call_OpenFile ''/home/chain/config/config.toml'',
      Call_WriteTo ''/home/chain/config/config.toml''
        [''p2p.persistent_peers'' \<mapsto> TomlString ''V1@1.2.3.4:26656,V2@127.0.0.1:22001'',
         ''p2p.allow_duplicate_ip'' \<mapsto> TomlBool True],
      Call_SetSPNConfig [\<lparr>Name = ''relayA'', Address = ''http://relay.a'', NodeID = ''V2'',
         LocalPort = ''22001''\<rparr>] ''/home/chain/spn.yml'',
      Call_SetGenesisTime ''/home/chain/config/genesis.json'' 1700000000,
      Call_ValidateGenesis, Call_UnsafeReset]"
    by (simp add: prepare_defs run_simps demo_simps demo_genesis_def fresh_world_def
        os_IsNotExist_def Itoa_eval)
  from ok1 have run1: "?present = (Inr (), snd ?present)"
    by (simp add: prod_eq_iff)
  note present = prepare_branches [OF h1, of demo_chain demo_genesis]
  note absent = prepare_branches [OF h2, of demo_chain demo_genesis]
  from present s1
  have first1: "\<exists>rest. calls (snd ?present) = calls demo_world @ Call_chain_Build # rest \<and>
      Call_Init \<notin> set rest"
    by blast
  from present run1
  have then1: "\<exists>w1 w2. (calls w1 = calls demo_world @ [Call_Init] \<or>
              calls w1 = calls demo_world @ [Call_chain_Build, Call_initGenesis]) \<and>
       buildGenesis demo_env demo_chain demo_genesis w1 = (Inr (), w2) \<and>
       calls (snd ?present) = calls w2 @ [Call_ValidateGenesis, Call_UnsafeReset]"
    by blast
  from absent s2 ne
  have first2: "\<exists>rest. calls (snd ?absent) = calls fresh_world @ Call_Init # rest \<and>
        Call_chain_Build \<notin> set rest \<and> Call_initGenesis \<notin> set rest"
    by blast
  from h1 s1 first1 ok1 calls1 k1 keys1 then1 h2 s2 ne first2 ok2 calls2 k2 keys2
  show ?thesis
    by (intro conjI)
qed

text \<open>
  C3 (as amended).  When the home directory exists, the first call of \<^verbatim>\<open>Prepare\<close> is the
  adapter's build \<^verbatim>\<open>c.chain.Build\<close>, in every world and so for every content of the
  binary cache, and an error of that build is the result of \<^verbatim>\<open>Prepare\<close>: the rebuild
  branch does not go through \<^verbatim>\<open>Chain.Build\<close> and its lookup.
\<close>

theorem rebuild_without_cache:
  assumes "chain_Home env w = Inr chainHome" and "os_Stat env chainHome w = None"
  shows "(\<exists>rest. calls (snd (Prepare env c gi w)) = calls w @ Call_chain_Build # rest) \<and>
         (\<forall>err failed.
            chain_Build env (w\<lparr>events := events w @ [Ongoing ''Building the blockchain'']\<rparr>) =
              (Inl err, failed) \<longrightarrow>
            fst (Prepare env c gi w) = Inl err)"
proof (intro conjI allI impI)
  from Prepare_home_present [OF assms, of c gi]
  show "\<exists>rest. calls (snd (Prepare env c gi w)) = calls w @ Call_chain_Build # rest"
    by blast
next
  fix err failed
  assume "chain_Build env (w\<lparr>events := events w @ [Ongoing ''Building the blockchain'']\<rparr>) =
      (Inl err, failed)"
  with assms show "fst (Prepare env c gi w) = Inl err"
    by (simp add: Prepare_def andThen_def query_def send_def invoke_def)
qed

theorem rebuild_without_cache_witness:
  "chain_Home demo_env cached_world = Inr ''/home/chain'' \<and>
   os_Stat demo_env ''/home/chain'' cached_world = None \<and>
   (\<exists>rest. calls (snd (Prepare demo_env demo_chain demo_genesis cached_world)) =
        calls cached_world @ Call_chain_Build # rest)"
proof -
  have h: "chain_Home demo_env cached_world = Inr ''/home/chain''"
    and s: "os_Stat demo_env ''/home/chain'' cached_world = None"
    by (simp_all add: demo_simps world_simps)
  from rebuild_without_cache [OF h s, of demo_chain demo_genesis]
  have "\<exists>rest. calls (snd (Prepare demo_env demo_chain demo_genesis cached_world)) =
        calls cached_world @ Call_chain_Build # rest"
    by blast
  with h s show ?thesis
    by (intro conjI)
qed

text \<open>
  C3 as stated fails: in a world where the home directory exists and the cache holds
  the record of the launch identity and source hash with the checksum of the binary on
  disk, \<^verbatim>\<open>Chain.Build\<close> returns at its lookup without building, and yet the first call
  of \<^verbatim>\<open>Prepare\<close> is the adapter's build.
\<close>

theorem rebuild_ignores_cache_counterexample:
  "os_Stat demo_env ''/home/chain'' cached_world = None \<and>
   cache cached_world (launchID demo_chain, hash demo_chain) = Some ''5f3a'' \<and>
   BinaryChecksum demo_env ''chaind'' cached_world = Inr ''5f3a'' \<and>
   Build demo_env demo_chain cached_world = (Inr ''chaind'', cached_world) \<and>
   fst (Prepare demo_env demo_chain demo_genesis cached_world) = Inr () \<and>
   calls (snd (Prepare demo_env demo_chain demo_genesis cached_world)) =
     [Call_chain_Build, Call_initGenesis, Call_detectPrefix,
      Call_AddGenesisAccount ''cosmosalice'' ''100stake'',
      Call_AddVestingAccount ''cosmosbob'' ''50stake'' ''20stake'' 1800000000,
      Call_RemoveAll ''/home/chain/config/gentx'', Call_MkdirAll ''/home/chain/config/gentx'',
      Call_WriteFile ''/home/chain/config/gentx/gentx0.json'' ''tx-direct'',
      Call_WriteFile ''/home/chain/config/gentx/gentx1.json'' ''tx-tunnel'',
      Call_CollectGentxs,
      Call_OpenFile ''/home/chain/config/config.toml'',
      Call_WriteTo ''/home/chain/config/config.toml''
        [''p2p.persistent_peers'' \<mapsto> TomlString ''V1@1.2.3.4:26656,V2@127.0.0.1:22001'',
         ''p2p.allow_duplicate_ip'' \<mapsto> TomlBool True],
      Call_SetSPNConfig [\<lparr>Name = ''relayA'', Address = ''http://relay.a'', NodeID = ''V2'',
         LocalPort = ''22001''\<rparr>] ''/home/chain/spn.yml'',
      Call_SetGenesisTime ''/home/chain/config/genesis.json'' 1700000000,
      Call_ValidateGenesis, Call_UnsafeReset]"
  by (simp add: prepare_defs Build_def lookupChecksum_def CheckBinaryCacheForLaunchID_def
      run_simps demo_simps world_simps demo_genesis_def Itoa_eval)

subsection \<open>\<^verbatim>\<open>fetchSource\<close>\<close>

text \<open>
  C9.  \<^verbatim>\<open>fetchSource\<close> returns a path and a hash exactly when the temporary directory is
  created, the remote is cloned into it (restricted to the reference when one is
  named), and then: with a pinned hash, the worktree is obtained, the pinned hash
  resolves to a commit in that clone and the checkout of that commit succeeds, the hash
  returned being the pinned one; without a pin, the HEAD of that clone is read and its
  hash is the one returned.  On success the log holds the three calls up to the clone,
  followed with a pin by the one checkout, of the commit that the pinned hash resolves
  to in the repository the clone returned, and by nothing without a pin.
\<close>

theorem fetch_resolved_hash:
  "(fetchSource env url ref customHash w = (Inr (path, resolved), w') \<longleftrightarrow>
      (\<exists>w1 w2 repo cloned.
         invoke Call_MkdirTemp (os_MkdirTemp env) w = (Inr path, w1) \<and>
         invoke (Call_MkdirAll path) (os_MkdirAll env path) w1 = (Inr (), w2) \<and>
         invoke (Call_PlainClone path \<lparr>URL = url, ReferenceName = ref, SingleBranch = (ref \<noteq> [])\<rparr>)
           (git_PlainClone env path \<lparr>URL = url, ReferenceName = ref, SingleBranch = (ref \<noteq> [])\<rparr>)
           w2 = (Inr repo, cloned) \<and>
         (if customHash \<noteq> [] then
            resolved = customHash \<and>
            git_Worktree env repo cloned = Inr () \<and>
            (\<exists>githash. git_ResolveRevision env repo customHash cloned = Inr githash \<and>
               invoke (Call_Checkout repo githash) (git_Checkout env repo githash) cloned =
                 (Inr (), w'))
          else git_Head env repo cloned = Inr resolved \<and> w' = cloned))) \<and>
   (fetchSource env url ref customHash w = (Inr (path, resolved), w') \<longrightarrow>
      (\<exists>w2 repo cloned.
         invoke (Call_PlainClone path \<lparr>URL = url, ReferenceName = ref, SingleBranch = (ref \<noteq> [])\<rparr>)
           (git_PlainClone env path \<lparr>URL = url, ReferenceName = ref, SingleBranch = (ref \<noteq> [])\<rparr>)
           w2 = (Inr repo, cloned) \<and>
         calls cloned = calls w @ [Call_MkdirTemp, Call_MkdirAll path,
           Call_PlainClone path \<lparr>URL = url, ReferenceName = ref, SingleBranch = (ref \<noteq> [])\<rparr>] \<and>
         (customHash \<noteq> [] \<longrightarrow>
            resolved = customHash \<and>
            (\<exists>githash. git_ResolveRevision env repo customHash cloned = Inr githash \<and>
               calls w' = calls cloned @ [Call_Checkout repo githash])) \<and>
         (customHash = [] \<longrightarrow> git_Head env repo w' = Inr resolved \<and> w' = cloned)))"
proof -
  let ?opts = "\<lparr>URL = url, ReferenceName = ref, SingleBranch = (ref \<noteq> [])\<rparr>"
  let ?run = "fetchSource env url ref customHash w = (Inr (path, resolved), w')"
  let ?tail = "\<lambda>repo cloned.
         if customHash \<noteq> [] then
            resolved = customHash \<and>
            git_Worktree env repo cloned = Inr () \<and>
            (\<exists>githash. git_ResolveRevision env repo customHash cloned = Inr githash \<and>
               invoke (Call_Checkout repo githash) (git_Checkout env repo githash) cloned =
                 (Inr (), w'))
          else git_Head env repo cloned = Inr resolved \<and> w' = cloned"
  let ?steps = "\<exists>w1 w2 repo cloned.
         invoke Call_MkdirTemp (os_MkdirTemp env) w = (Inr path, w1) \<and>
         invoke (Call_MkdirAll path) (os_MkdirAll env path) w1 = (Inr (), w2) \<and>
         invoke (Call_PlainClone path ?opts) (git_PlainClone env path ?opts) w2 = (Inr repo, cloned) \<and>
         ?tail repo cloned"
  have forth: "?steps" if "?run"
    using that unfolding fetchSource_def Let_def
    by (cases "ref = []"; cases "customHash = []")
      (auto simp: succeed_def elim!: andThen_Inr dest!: query_Inr)
  have converse: "?run" if "?steps"
    using that unfolding fetchSource_def Let_def
    by (cases "ref = []"; cases "customHash = []")
      (auto simp: succeed_def andThen_def query_def)
  have log: "\<exists>w2 repo cloned.
         invoke (Call_PlainClone path ?opts) (git_PlainClone env path ?opts) w2 = (Inr repo, cloned) \<and>
         calls cloned = calls w @ [Call_MkdirTemp, Call_MkdirAll path, Call_PlainClone path ?opts] \<and>
         (customHash \<noteq> [] \<longrightarrow>
            resolved = customHash \<and>
            (\<exists>githash. git_ResolveRevision env repo customHash cloned = Inr githash \<and>
               calls w' = calls cloned @ [Call_Checkout repo githash])) \<and>
         (customHash = [] \<longrightarrow> git_Head env repo w' = Inr resolved \<and> w' = cloned)"
    if "?run"
  proof -
    from forth [OF that] obtain w1 w2 repo cloned
      where s1: "invoke Call_MkdirTemp (os_MkdirTemp env) w = (Inr path, w1)"
        and s2: "invoke (Call_MkdirAll path) (os_MkdirAll env path) w1 = (Inr (), w2)"
        and s3: "invoke (Call_PlainClone path ?opts) (git_PlainClone env path ?opts) w2 =
            (Inr repo, cloned)"
        and tail: "?tail repo cloned"
      by blast
    from invoke_Inr [OF s1] invoke_Inr [OF s2] invoke_Inr [OF s3]
    have "calls cloned = calls w @ [Call_MkdirTemp, Call_MkdirAll path, Call_PlainClone path ?opts]"
      by simp
    moreover have "customHash \<noteq> [] \<longrightarrow>
            resolved = customHash \<and>
            (\<exists>githash. git_ResolveRevision env repo customHash cloned = Inr githash \<and>
               calls w' = calls cloned @ [Call_Checkout repo githash])"
    proof
      assume "customHash \<noteq> []"
      with tail obtain githash
        where "resolved = customHash"
          and "git_ResolveRevision env repo customHash cloned = Inr githash"
          and co: "invoke (Call_Checkout repo githash) (git_Checkout env repo githash) cloned =
              (Inr (), w')"
        by auto
      with invoke_Inr [OF co]
      show "resolved = customHash \<and>
            (\<exists>githash. git_ResolveRevision env repo customHash cloned = Inr githash \<and>
               calls w' = calls cloned @ [Call_Checkout repo githash])"
        by blast
    qed
    moreover from tail
    have "customHash = [] \<longrightarrow> git_Head env repo w' = Inr resolved \<and> w' = cloned"
      by auto
    ultimately show ?thesis
      using s3 by blast
  qed
  from forth converse log show ?thesis
    by blast
qed

theorem fetch_resolved_hash_witness:
  "fetchSource demo_env ''https://example.org/chain.git'' [] ''9f8e7d'' demo_world =
     (Inr (''/tmp/src'', ''9f8e7d''),
      demo_world\<lparr>calls := [Call_MkdirTemp, Call_MkdirAll ''/tmp/src'',
          Call_PlainClone ''/tmp/src''
            \<lparr>URL = ''https://example.org/chain.git'', ReferenceName = [], SingleBranch = False\<rparr>,
          Call_Checkout (Repo ''/tmp/src'') ''9f8e7d''],
        ext := demo_disk\<lparr>checked_out := ''9f8e7d''\<rparr>\<rparr>) \<and>
   git_ResolveRevision demo_env (Repo ''/tmp/src'') ''9f8e7d''
     (demo_world\<lparr>calls := [Call_MkdirTemp, Call_MkdirAll ''/tmp/src'',
          Call_PlainClone ''/tmp/src''
            \<lparr>URL = ''https://example.org/chain.git'', ReferenceName = [], SingleBranch = False\<rparr>]\<rparr>) =
     Inr ''9f8e7d'' \<and>
   fetchSource demo_env ''https://example.org/chain.git'' ''refs/heads/main'' [] demo_world =
     (Inr (''/tmp/src'', ''0a1b2c''),
      demo_world\<lparr>calls := [Call_MkdirTemp, Call_MkdirAll ''/tmp/src'',
          Call_PlainClone ''/tmp/src''
            \<lparr>URL = ''https://example.org/chain.git'', ReferenceName = ''refs/heads/main'',
              SingleBranch = True\<rparr>]\<rparr>) \<and>
   git_Head demo_env (Repo ''/tmp/src'')
     (demo_world\<lparr>calls := [Call_MkdirTemp, Call_MkdirAll ''/tmp/src'',
          Call_PlainClone ''/tmp/src''
            \<lparr>URL = ''https://example.org/chain.git'', ReferenceName = ''refs/heads/main'',
              SingleBranch = True\<rparr>]\<rparr>) = Inr ''0a1b2c''"
proof -
  let ?url = "''https://example.org/chain.git''"
  let ?plain = "\<lparr>URL = ?url, ReferenceName = [], SingleBranch = False\<rparr>"
  let ?main = "\<lparr>URL = ?url, ReferenceName = ''refs/heads/main'', SingleBranch = True\<rparr>"
  let ?w1 = "demo_world\<lparr>calls := [Call_MkdirTemp]\<rparr>"
  let ?w2 = "demo_world\<lparr>calls := [Call_MkdirTemp, Call_MkdirAll ''/tmp/src'']\<rparr>"
  let ?pinned = "demo_world\<lparr>calls := [Call_MkdirTemp, Call_MkdirAll ''/tmp/src'',
      Call_PlainClone ''/tmp/src'' ?plain]\<rparr>"
  let ?tip = "demo_world\<lparr>calls := [Call_MkdirTemp, Call_MkdirAll ''/tmp/src'',
      Call_PlainClone ''/tmp/src'' ?main]\<rparr>"
  let ?out = "demo_world\<lparr>calls := [Call_MkdirTemp, Call_MkdirAll ''/tmp/src'',
      Call_PlainClone ''/tmp/src'' ?plain, Call_Checkout (Repo ''/tmp/src'') ''9f8e7d''],
      ext := demo_disk\<lparr>checked_out := ''9f8e7d''\<rparr>\<rparr>"
  have s1: "invoke Call_MkdirTemp (os_MkdirTemp demo_env) demo_world = (Inr ''/tmp/src'', ?w1)"
    and s2: "invoke (Call_MkdirAll ''/tmp/src'') (os_MkdirAll demo_env ''/tmp/src'') ?w1 =
        (Inr (), ?w2)"
    and s3: "invoke (Call_PlainClone ''/tmp/src'' ?plain) (git_PlainClone demo_env ''/tmp/src'' ?plain)
        ?w2 = (Inr (Repo ''/tmp/src''), ?pinned)"
    and s3': "invoke (Call_PlainClone ''/tmp/src'' ?main) (git_PlainClone demo_env ''/tmp/src'' ?main)
        ?w2 = (Inr (Repo ''/tmp/src''), ?tip)"
    and wt: "git_Worktree demo_env (Repo ''/tmp/src'') ?pinned = Inr ()"
    and rev: "git_ResolveRevision demo_env (Repo ''/tmp/src'') ''9f8e7d'' ?pinned = Inr ''9f8e7d''"
    and co: "invoke (Call_Checkout (Repo ''/tmp/src'') ''9f8e7d'')
        (git_Checkout demo_env (Repo ''/tmp/src'') ''9f8e7d'') ?pinned = (Inr (), ?out)"
    and head: "git_Head demo_env (Repo ''/tmp/src'') ?tip = Inr ''0a1b2c''"
    by (simp_all add: run_simps demo_simps)
  from fetch_resolved_hash [of demo_env ?url "[]" "''9f8e7d''" demo_world "''/tmp/src''"
      "''9f8e7d''" ?out] s1 s2 s3 wt rev co
  have pinned: "fetchSource demo_env ?url [] ''9f8e7d'' demo_world =
      (Inr (''/tmp/src'', ''9f8e7d''), ?out)"
    by simp
  from fetch_resolved_hash [of demo_env ?url "''refs/heads/main''" "[]" demo_world "''/tmp/src''"
      "''0a1b2c''" ?tip] s1 s2 s3' head
  have tip: "fetchSource demo_env ?url ''refs/heads/main'' [] demo_world =
      (Inr (''/tmp/src'', ''0a1b2c''), ?tip)"
    by simp
  from pinned rev tip head show ?thesis
    by (intro conjI)
qed


end
